theory Spec2Isabelle
  imports Complex_Main
begin

section \<open>Common data: errors, element attributes\<close>

text \<open>
  \<open>mfem_error\<close> and \<open>MFEM_ABORT\<close> print their message and end the process: the
  constructor \<open>Abort\<close> carries the message. Reading an array outside its bounds is
  undefined in C++ (an assertion in a debug build of the library): \<open>OutOfBounds\<close>;
  so is the use of a null pointer: \<open>NullPointer\<close>.
\<close>

datatype error = Abort string | OutOfBounds | NullPointer

text \<open>
  Of a \<open>mfem::ParMesh\<close> the coil code reads the attribute of each element.
  \<open>GetNE\<close> is the number of elements, \<open>GetAttribute\<close> reads one attribute; the
  element index is a C++ \<open>int\<close>.
\<close>

record ParMesh =
  attributes_of_elements :: "int list"

definition GetNE :: "ParMesh \<Rightarrow> int" where
  "GetNE mesh = int (length (attributes_of_elements mesh))"

definition GetAttribute :: "ParMesh \<Rightarrow> int \<Rightarrow> error + int" where
  "GetAttribute mesh i =
     (if 0 \<le> i \<and> i < GetNE mesh then Inr (attributes_of_elements mesh ! nat i)
      else Inl OutOfBounds)"

section \<open>ClosedCoilSolver: auxiliary methods\<close>

text \<open>
  \<^verbatim>\<open>
  bool ClosedCoilSolver::isInDomain(const int el, const mfem::Array<int> &dom,
                                    const mfem::ParMesh *mesh) {
    // This is for ghost elements
    if (el < 0)
      return false;
    bool verify = false;
    for (auto sd : dom) {
      if (mesh->GetAttribute(el) == sd)
        verify = true;
    }
    return verify;
  }
  \<close>
  The loop runs over the whole list and reads the attribute once per entry.
\<close>

fun isInDomain_loop :: "int \<Rightarrow> int list \<Rightarrow> ParMesh \<Rightarrow> bool \<Rightarrow> error + bool" where
  "isInDomain_loop el [] mesh verify = Inr verify"
| "isInDomain_loop el (sd # doms) mesh verify =
     (case GetAttribute mesh el of
        Inl e \<Rightarrow> Inl e
      | Inr a \<Rightarrow> isInDomain_loop el doms mesh (if a = sd then True else verify))"

definition isInDomain :: "int \<Rightarrow> int list \<Rightarrow> ParMesh \<Rightarrow> error + bool" where
  "isInDomain el doms mesh =
     (if el < 0 then Inr False else isInDomain_loop el doms mesh False)"

text \<open>The overload for a single attribute.\<close>

definition isInDomain_single :: "int \<Rightarrow> int \<Rightarrow> ParMesh \<Rightarrow> error + bool" where
  "isInDomain_single el sd mesh =
     (if el < 0 then Inr False
      else case GetAttribute mesh el of Inl e \<Rightarrow> Inl e | Inr a \<Rightarrow> Inr (a = sd))"


section \<open>Double precision values and vectors\<close>

text \<open>
  A C++ \<open>double\<close> is a binary64 value: a finite value, an infinity or a NaN. A
  finite double is kept as the real number it stands for; the two zeros are one value,
  so the sign of a zero is outside the model.
\<close>

datatype dbl = Fin real | PInf | NInf | NaN

fun dneg :: "dbl \<Rightarrow> dbl" where
  "dneg (Fin a) = Fin (- a)"
| "dneg PInf = NInf"
| "dneg NInf = PInf"
| "dneg NaN = NaN"

fun fabs :: "dbl \<Rightarrow> dbl" where
  "fabs (Fin a) = Fin \<bar>a\<bar>"
| "fabs PInf = PInf"
| "fabs NInf = PInf"
| "fabs NaN = NaN"

text \<open>
  An arithmetic operation on finite doubles computes the exact result and rounds it to
  the nearest double, ties to the even significand. Around a magnitude \<open>x\<close> the
  doubles lie \<open>2^q\<close> apart, with \<open>q = e - 52\<close> for
  \<open>2^e \<le> x < 2^(e + 1)\<close> and \<open>e\<close> from -1022 to 1023 (\<open>binade_search\<close>
  finds \<open>e\<close>), and \<open>q = -1074\<close> for the subnormal values below
  \<open>2^(-1022)\<close>. A magnitude of \<open>2^1024\<close> or more, before or after rounding,
  is an infinity.
\<close>

definition round_half_even :: "real \<Rightarrow> int" where
  "round_half_even t =
     (if t - of_int \<lfloor>t\<rfloor> < 1 / 2 then \<lfloor>t\<rfloor>
      else if 1 / 2 < t - of_int \<lfloor>t\<rfloor> then \<lfloor>t\<rfloor> + 1
      else if even \<lfloor>t\<rfloor> then \<lfloor>t\<rfloor> else \<lfloor>t\<rfloor> + 1)"

fun binade_search :: "real \<Rightarrow> int \<Rightarrow> nat \<Rightarrow> int option" where
  "binade_search x e 0 = None"
| "binade_search x e (Suc n) =
     (if x < 2 powi (e + 1) then Some e else binade_search x (e + 1) n)"

definition ulp_exponent :: "real \<Rightarrow> int option" where
  "ulp_exponent x =
     (if x < 2 powi (- 1022) then Some (- 1074)
      else map_option (\<lambda>e. e - 52) (binade_search x (- 1022) 2046))"

definition round_magnitude :: "real \<Rightarrow> dbl" where
  "round_magnitude x =
     (case ulp_exponent x of
        None \<Rightarrow> PInf
      | Some q \<Rightarrow>
          (if (2::real) powi 1024 \<le> 2 powi q * of_int (round_half_even (x / 2 powi q)) then PInf
           else Fin (2 powi q * of_int (round_half_even (x / 2 powi q)))))"

definition round64 :: "real \<Rightarrow> dbl" where
  "round64 x = (if 0 \<le> x then round_magnitude x else dneg (round_magnitude (- x)))"

fun dadd :: "dbl \<Rightarrow> dbl \<Rightarrow> dbl" where
  "dadd (Fin a) (Fin b) = round64 (a + b)"
| "dadd NaN b = NaN"
| "dadd a NaN = NaN"
| "dadd PInf NInf = NaN"
| "dadd NInf PInf = NaN"
| "dadd PInf b = PInf"
| "dadd NInf b = NInf"
| "dadd a b = b"

definition dsub :: "dbl \<Rightarrow> dbl \<Rightarrow> dbl" where
  "dsub a b = dadd a (dneg b)"

fun dmul :: "dbl \<Rightarrow> dbl \<Rightarrow> dbl" where
  "dmul (Fin a) (Fin b) = round64 (a * b)"
| "dmul NaN b = NaN"
| "dmul a NaN = NaN"
| "dmul (Fin a) b = (if a = 0 then NaN else if 0 < a then b else dneg b)"
| "dmul a (Fin b) = (if b = 0 then NaN else if 0 < b then a else dneg a)"
| "dmul PInf b = b"
| "dmul NInf b = dneg b"

fun ddiv :: "dbl \<Rightarrow> dbl \<Rightarrow> dbl" where
  "ddiv NaN b = NaN"
| "ddiv a NaN = NaN"
| "ddiv (Fin a) (Fin b) =
     (if b = 0 then (if a = 0 then NaN else if 0 < a then PInf else NInf)
      else round64 (a / b))"
| "ddiv (Fin a) b = Fin 0"
| "ddiv a (Fin b) = (if 0 \<le> b then a else dneg a)"
| "ddiv a b = NaN"

text \<open>\<open>dless a b\<close> is the comparison \<open>a < b\<close>: false whenever a NaN is involved.\<close>

fun dless :: "dbl \<Rightarrow> dbl \<Rightarrow> bool" where
  "dless (Fin a) (Fin b) = (a < b)"
| "dless (Fin a) PInf = True"
| "dless NInf (Fin b) = True"
| "dless NInf PInf = True"
| "dless a b = False"

fun is_finite :: "dbl \<Rightarrow> bool" where
  "is_finite (Fin a) = True"
| "is_finite a = False"

text \<open>
  A decimal literal of the source stands for the double nearest to it. The literals
  \<open>1.0e-9\<close>, \<open>1.0e-12\<close> and \<open>1.0e-16\<close> of the operators are not doubles
  themselves; \<open>0.0\<close>, \<open>1.0\<close> and \<open>-1.0\<close> are.
\<close>

definition literal_1e_9 :: dbl where
  "literal_1e_9 = round64 (1 / 10 ^ 9)"

definition literal_1e_12 :: dbl where
  "literal_1e_12 = round64 (1 / 10 ^ 12)"

definition literal_1e_16 :: dbl where
  "literal_1e_16 = round64 (1 / 10 ^ 16)"

text \<open>
  \<open>mfem::Vector\<close> and the grid functions and linear forms derived from it are arrays
  of doubles. \<open>v *= c\<close> and \<open>v = c\<close> act on every entry; \<open>v.Add(a, w)\<close> is
  \<open>v += a * w\<close> and needs two vectors of one size. \<open>v /= c\<close> multiplies every
  entry by the reciprocal of \<open>c\<close>:
  \<^verbatim>\<open>
    const double m = 1.0/c;
    for (int i = 0; i < size; i++) { y[i] *= m; }
  \<close>
\<close>

type_synonym Vector = "dbl list"

definition vec_mul :: "Vector \<Rightarrow> dbl \<Rightarrow> Vector" where
  "vec_mul v c = map (\<lambda>y. dmul y c) v"

definition vec_div :: "Vector \<Rightarrow> dbl \<Rightarrow> Vector" where
  "vec_div v c = map (\<lambda>y. dmul y (ddiv (Fin 1) c)) v"

definition vec_assign :: "Vector \<Rightarrow> dbl \<Rightarrow> Vector" where
  "vec_assign v c = map (\<lambda>y. c) v"

definition Vector_Add :: "Vector \<Rightarrow> dbl \<Rightarrow> Vector \<Rightarrow> error + Vector" where
  "Vector_Add v a w =
     (if length w = length v then Inr (map2 (\<lambda>x y. dadd x (dmul a y)) v w)
      else Inl OutOfBounds)"

section \<open>Registries, coefficients, spaces\<close>

text \<open>
  \<open>NamedFieldsMap\<close> maps names to registered objects; \<open>Get\<close> returns a null pointer
  for a name that is not registered. Grid functions are mutable and shared between the
  components that looked them up, so the registry of grid functions is the store and a
  pointer to a registered grid function is its name.
\<close>

type_synonym 'a NamedFieldsMap = "string \<Rightarrow> 'a option"

type_synonym GridFunctions = "Vector NamedFieldsMap"

definition Get_ptr :: "'a NamedFieldsMap \<Rightarrow> string \<Rightarrow> string option" where
  "Get_ptr m name = (case m name of None \<Rightarrow> None | Some x \<Rightarrow> Some name)"

text \<open>
  A scalar coefficient is evaluated at an integration point of an element, given here
  by the number of the element and the number of the point.
\<close>

type_synonym Coefficient = "int \<times> nat \<Rightarrow> dbl"

definition ConstantCoefficient :: "dbl \<Rightarrow> Coefficient" where
  "ConstantCoefficient c = (\<lambda>p. c)"

definition Eval :: "Coefficient \<Rightarrow> int \<times> nat \<Rightarrow> dbl" where
  "Eval c p = c p"

text \<open>
  Of a finite element space the operators read two sizes: the size of the local vector
  of degrees of freedom (\<open>GetVSize\<close>) and the number of true degrees of freedom
  (\<open>GetTrueVSize\<close>). On a partitioned mesh they differ. Both are C++ \<open>int\<close>s.
\<close>

record FESpace =
  GetVSize :: int
  GetTrueVSize :: int

text \<open>What a component does that leaves the process or calls a collaborator, in order.\<close>

datatype event = Print string | Invoke string | New string

section \<open>OpenCoilSolver\<close>

text \<open>
  The coil solvers call the finite element library and classes of the repository whose
  code is not part of the sources at hand (\<open>ScalarPotentialSource\<close>,
  \<open>HelmholtzProjector\<close>). What these compute for one coil enters as a parameter:
  the sizes of the two spaces on the child mesh, the transfer of a child grid function
  into a parent grid function (\<open>mesh_->Transfer(src, dst)\<close>, one map for each kind
  of space), the fields that the potential solve and the divergence cleaning leave in
  \<open>J_\<close> and \<open>V_\<close>, and the flux integral of \<open>calcFlux\<close>.
\<close>

record SubMesh_ops =
  H1_VSize :: nat
  HCurl_VSize :: nat
  Transfer_HCurl :: "Vector \<Rightarrow> Vector \<Rightarrow> Vector"
  Transfer_H1 :: "Vector \<Rightarrow> Vector \<Rightarrow> Vector"
  ScalarPotentialSource_fields :: "Vector \<Rightarrow> Vector \<Rightarrow> Vector \<times> Vector"
  calcFlux :: "Vector \<Rightarrow> int \<Rightarrow> dbl"

record OpenCoilSolver =
  J_gf_name :: string
  V_gf_name :: string
  I_coef_name :: string
  coil_domains :: "int list"
  elec_attrs :: "int \<times> int"
  ref_face :: int
  Itotal :: "Coefficient option"
  J_parent :: "string option"
  V_parent :: "string option"
  J_child :: "Vector option"
  V_child :: "Vector option"
  high_terminal :: "int list"
  low_terminal :: "int list"

text \<open>
  The constructor reads the three names from its parameters (\<open>SourceName\<close>,
  \<open>PotentialName\<close>, \<open>IFuncCoefName\<close>), nulls the pointers and takes the first
  electrode as the reference face. The members are named as in the source, without the
  trailing underscore; the child fields \<open>J_\<close> and \<open>V_\<close> are \<open>J_child\<close> and
  \<open>V_child\<close>.
\<close>

definition OpenCoilSolver_new ::
  "string \<Rightarrow> string \<Rightarrow> string \<Rightarrow> int list \<Rightarrow> int \<times> int \<Rightarrow> OpenCoilSolver" where
  "OpenCoilSolver_new SourceName PotentialName IFuncCoefName coil_dom electrodes =
     \<lparr>J_gf_name = SourceName, V_gf_name = PotentialName, I_coef_name = IFuncCoefName,
      coil_domains = coil_dom, elec_attrs = electrodes, ref_face = fst electrodes,
      Itotal = None, J_parent = None, V_parent = None, J_child = None, V_child = None,
      high_terminal = [], low_terminal = []\<rparr>"

definition setRefFace :: "int \<Rightarrow> OpenCoilSolver \<Rightarrow> OpenCoilSolver" where
  "setRefFace face s = s\<lparr>ref_face := face\<rparr>"

text \<open>
  \<^verbatim>\<open>
  void OpenCoilSolver::makeGridFunctions() {
    if (V_ == nullptr) V_ = new mfem::ParGridFunction(H1FESpace_);
    if (J_ == nullptr) J_ = new mfem::ParGridFunction(HCurlFESpace_);
    *V_ = 0.0;
    *J_ = 0.0;
  }
  \<close>
\<close>

definition makeGridFunctions :: "SubMesh_ops \<Rightarrow> OpenCoilSolver \<Rightarrow> OpenCoilSolver" where
  "makeGridFunctions ops s =
     s\<lparr>V_child := Some (case V_child s of None \<Rightarrow> replicate (H1_VSize ops) (Fin 0)
                   | Some v \<Rightarrow> vec_assign v (Fin 0)),
       J_child := Some (case J_child s of None \<Rightarrow> replicate (HCurl_VSize ops) (Fin 0)
                   | Some v \<Rightarrow> vec_assign v (Fin 0))\<rparr>"

definition setBCs :: "OpenCoilSolver \<Rightarrow> OpenCoilSolver" where
  "setBCs s =
     s\<lparr>high_terminal :=
         (if high_terminal s = [] then [fst (elec_attrs s)] else high_terminal s),
       low_terminal :=
         (if low_terminal s = [] then [snd (elec_attrs s)] else low_terminal s)\<rparr>"

text \<open>
  \<open>SPSCurrent\<close> solves for the fields and then normalises them by the flux through
  the reference face:
  \<^verbatim>\<open>
    double flux = calcFlux(J_, ref_face_);
    *J_ /= abs(flux);
    if (V_) *V_ /= abs(flux);
  \<close>
  \<open>abs\<close> is taken as the absolute value of the double.
\<close>

definition SPSCurrent :: "SubMesh_ops \<Rightarrow> OpenCoilSolver \<Rightarrow> error + OpenCoilSolver" where
  "SPSCurrent ops s =
     (case (J_child s, V_child s) of
        (Some J0, Some V0) \<Rightarrow>
          (let (J, V) = ScalarPotentialSource_fields ops J0 V0;
               flux = calcFlux ops J (ref_face s)
           in Inr (s\<lparr>J_child := Some (vec_div J (fabs flux)),
                     V_child := Some (vec_div V (fabs flux))\<rparr>))
      | _ \<Rightarrow> Inl NullPointer)"

text \<open>
  \<^verbatim>\<open>
  void OpenCoilSolver::Init(gridfunctions, fespaces, bc_map, coefficients) {
    Itotal_ = coefficients.scalars.Get(I_coef_name_);
    if (Itotal_ == nullptr) {
      const std::string error_message = I_coef_name_ +
          " not found in coefficients when creating OpenCoilSolver\n";
      mfem::mfem_error(error_message.c_str());
    }
    J_parent_ = gridfunctions.Get(J_gf_name_);
    if (J_parent_ == nullptr) {
      const std::string error_message = J_gf_name_ +
          " not found in gridfunctions when creating OpenCoilSolver\n";
      mfem::mfem_error(error_message.c_str());
    }
    V_parent_ = gridfunctions.Get(V_gf_name_);
    if (V_parent_ == nullptr) {
      std::cout << V_gf_name_ + " not found in gridfunctions when "
                                "creating OpenCoilSolver. ";
    }
    mesh_parent_ = J_parent_->ParFESpace()->GetParMesh();
    initChildMesh();
    makeFESpaces();
    makeGridFunctions();
    setBCs();
    SPSCurrent();
  }
  \<close>
  The result is the list of events in program order and either the error that ended
  the process or the initialised solver. The arguments \<open>fespaces\<close> and \<open>bc_map\<close>
  are not read.
\<close>

definition not_found_msg :: "string \<Rightarrow> string \<Rightarrow> string \<Rightarrow> string" where
  "not_found_msg name registry component =
     name @ '' not found in '' @ registry @ '' when creating '' @ component"

definition OpenCoilSolver_Init ::
  "SubMesh_ops \<Rightarrow> GridFunctions \<Rightarrow> Coefficient NamedFieldsMap \<Rightarrow> OpenCoilSolver \<Rightarrow>
     event list \<times> (error + OpenCoilSolver)" where
  "OpenCoilSolver_Init ops gridfunctions scalars s =
     (case scalars (I_coef_name s) of
        None \<Rightarrow>
          ([], Inl (Abort (not_found_msg (I_coef_name s) ''coefficients'' ''OpenCoilSolver''
                            @ [CHR 0x0A])))
      | Some I \<Rightarrow>
          (case Get_ptr gridfunctions (J_gf_name s) of
             None \<Rightarrow>
               ([], Inl (Abort (not_found_msg (J_gf_name s) ''gridfunctions'' ''OpenCoilSolver''
                                 @ [CHR 0x0A])))
           | Some Jp \<Rightarrow>
               (let Vp = Get_ptr gridfunctions (V_gf_name s);
                    out = (if Vp = None
                           then [Print (not_found_msg (V_gf_name s) ''gridfunctions''
                                          ''OpenCoilSolver'' @ ''. '')]
                           else []);
                    s1 = s\<lparr>Itotal := Some I, J_parent := Some Jp, V_parent := Vp\<rparr>;
                    s2 = setBCs (makeGridFunctions ops s1)
                in (out @ [Invoke ''initChildMesh'', Invoke ''makeFESpaces'',
                           Invoke ''makeGridFunctions'', Invoke ''setBCs'',
                           Invoke ''SPSCurrent''],
                    SPSCurrent ops s2))))"

text \<open>
  \<^verbatim>\<open>
  void OpenCoilSolver::Apply(mfem::ParLinearForm *lf) {
    ...
    double I = Itotal_->Eval(*Tr, ip);
    *J_ *= I;
    mesh_->Transfer(*J_, *J_parent_);
    *J_ /= I;
    if (V_parent_ != nullptr) {
      *V_ *= I;
      mesh_->Transfer(*V_, *V_parent_);
      *V_ /= I;
    }
    lf->Add(1.0, *J_parent_);
  }
  \<close>
  The coefficient is evaluated at the first integration point of element 0. The call
  changes the solver (\<open>J_\<close>, \<open>V_\<close>), the store of grid functions (the two parent
  fields) and the linear form.
\<close>

definition OpenCoilSolver_Apply ::
  "SubMesh_ops \<Rightarrow> OpenCoilSolver \<Rightarrow> GridFunctions \<Rightarrow> Vector \<Rightarrow>
     error + (OpenCoilSolver \<times> GridFunctions \<times> Vector)" where
  "OpenCoilSolver_Apply ops s gfs lf =
     (case (Itotal s, J_child s, J_parent s) of
        (Some Itot, Some J, Some Jp) \<Rightarrow>
          (case gfs Jp of
             None \<Rightarrow> Inl NullPointer
           | Some Jpar \<Rightarrow>
               (let I = Eval Itot (0, 0);
                    J1 = vec_mul J I;
                    gfs1 = gfs(Jp := Some (Transfer_HCurl ops J1 Jpar));
                    s1 = s\<lparr>J_child := Some (vec_div J1 I)\<rparr>
                in (case (case V_parent s of
                            None \<Rightarrow> Inr (s1, gfs1)
                          | Some Vp \<Rightarrow>
                              (case (V_child s, gfs1 Vp) of
                                 (Some V, Some Vpar) \<Rightarrow>
                                   (let V1 = vec_mul V I
                                    in Inr (s1\<lparr>V_child := Some (vec_div V1 I)\<rparr>,
                                            gfs1(Vp := Some (Transfer_H1 ops V1 Vpar))))
                               | _ \<Rightarrow> Inl NullPointer)) of
                      Inl e \<Rightarrow> Inl e
                    | Inr (s2, gfs2) \<Rightarrow>
                        (case gfs2 Jp of
                           None \<Rightarrow> Inl NullPointer
                         | Some Jpar2 \<Rightarrow>
                             (case Vector_Add lf (Fin 1) Jpar2 of
                                Inl e \<Rightarrow> Inl e
                              | Inr lf2 \<Rightarrow> Inr (s2, gfs2, lf2))))))
      | _ \<Rightarrow> Inl NullPointer)"

section \<open>ClosedCoilSolver\<close>

text \<open>
  A closed coil is cut into two open coils. What the library computes on the parent mesh
  enters as a parameter: the largest domain attribute and the largest boundary
  attribute of the mesh, and the operations of the two child meshes. The members carry
  the prefix \<open>cc\<close> where the open coil has a member of the same name.
\<close>

record ClosedCoil_ops =
  attributes_Max :: int
  bdr_attributes_Max :: int
  coil_ops :: "nat \<Rightarrow> SubMesh_ops"

record ClosedCoilSolver =
  hcurl_fespace_name :: string
  cc_J_gf_name :: string
  cc_I_coef_name :: string
  cc_coil_domains :: "int list"
  cc_elec_attrs :: "int \<times> int"
  new_domain_attr :: "int option"
  cc_Itotal :: "Coefficient option"
  cc_J_parent :: "string option"
  HCurlFESpace_parent :: "FESpace option"
  submesh_domains :: "int list list"
  opencoil :: "OpenCoilSolver option list"

definition ClosedCoilSolver_new ::
  "string \<Rightarrow> string \<Rightarrow> string \<Rightarrow> int list \<Rightarrow> int \<Rightarrow> ClosedCoilSolver" where
  "ClosedCoilSolver_new HCurlFESpaceName JGridFunctionName IFuncCoefName coil_dom
       electrode_face =
     \<lparr>hcurl_fespace_name = HCurlFESpaceName, cc_J_gf_name = JGridFunctionName,
      cc_I_coef_name = IFuncCoefName, cc_coil_domains = coil_dom,
      cc_elec_attrs = (electrode_face, 0), new_domain_attr = None, cc_Itotal = None,
      cc_J_parent = None, HCurlFESpace_parent = None, submesh_domains = [],
      opencoil = []\<rparr>"

definition resizeChildVectors :: "ClosedCoilSolver \<Rightarrow> ClosedCoilSolver" where
  "resizeChildVectors s = s\<lparr>opencoil := take 2 (opencoil s @ replicate 2 None)\<rparr>"

text \<open>
  \<open>makeWedge\<close> marks the elements next to the electrode with a new domain attribute
  and adds the second electrode to the boundary of the parent mesh. Of this the solver
  keeps
  \<^verbatim>\<open>
    new_domain_attr_ = mesh_parent_->attributes.Max() + 1;
    elec_attrs_.second = mesh_parent_->bdr_attributes.Max() + 1;
    ...
    mfem::Array<int> v;
    v.Append(new_domain_attr_);
    submesh_domains_.push_back(coil_domains_);
    submesh_domains_.push_back(v);
  \<close>
  The edit of the mesh itself is undone by \<open>restoreAttributes\<close> at the end of
  \<open>Init\<close> and is not part of the state below.
\<close>

definition makeWedge :: "ClosedCoil_ops \<Rightarrow> ClosedCoilSolver \<Rightarrow> ClosedCoilSolver" where
  "makeWedge ops s =
     s\<lparr>new_domain_attr := Some (attributes_Max ops + 1),
       cc_elec_attrs := (fst (cc_elec_attrs s), bdr_attributes_Max ops + 1),
       submesh_domains :=
         submesh_domains s @ [cc_coil_domains s, [attributes_Max ops + 1]]\<rparr>"

text \<open>
  \<^verbatim>\<open>
  for (int i = 0; i < 2; ++i) {
    ...
    ocs_params_[i]->SetParam("SourceName", J_gf_name_);
    ocs_params_[i]->SetParam("IFuncCoefName", I_coef_name_);
    ocs_params_[i]->SetParam("PotentialName", std::string("Phi"));
    if (i == 1)
      std::swap(elec_attrs_.first, elec_attrs_.second);
    opencoil_[i] = new hephaestus::OpenCoilSolver(
        *ocs_params_[i], submesh_domains_[i], elec_attrs_);
    if (i == 1)
      opencoil_[i]->setRefFace(elec_attrs_.second);
    opencoil_[i]->Init(gridfunctions, *fespaces_[i], *bc_maps_[i], coefficients);
  }
  std::swap(elec_attrs_.first, elec_attrs_.second);
  \<close>
\<close>

definition solveOpenCoils_iteration ::
  "ClosedCoil_ops \<Rightarrow> GridFunctions \<Rightarrow> Coefficient NamedFieldsMap \<Rightarrow> nat \<Rightarrow>
     ClosedCoilSolver \<Rightarrow> event list \<times> (error + ClosedCoilSolver)" where
  "solveOpenCoils_iteration ops gridfunctions scalars i s =
     (let s1 = (if i = 1 then s\<lparr>cc_elec_attrs := prod.swap (cc_elec_attrs s)\<rparr> else s)
      in if i < length (submesh_domains s1) \<and> i < length (opencoil s1)
         then
           (let oc0 = OpenCoilSolver_new (cc_J_gf_name s1) ''Phi'' (cc_I_coef_name s1)
                        (submesh_domains s1 ! i) (cc_elec_attrs s1);
                oc1 = (if i = 1 then setRefFace (snd (cc_elec_attrs s1)) oc0 else oc0);
                (ev, r) = OpenCoilSolver_Init (coil_ops ops i) gridfunctions scalars oc1
            in (New ''OpenCoilSolver'' # Invoke ''OpenCoilSolver::Init'' # ev,
                case r of
                  Inl e \<Rightarrow> Inl e
                | Inr oc \<Rightarrow> Inr (s1\<lparr>opencoil := (opencoil s1)[i := Some oc]\<rparr>)))
         else ([], Inl OutOfBounds))"

definition solveOpenCoils ::
  "ClosedCoil_ops \<Rightarrow> GridFunctions \<Rightarrow> Coefficient NamedFieldsMap \<Rightarrow> ClosedCoilSolver \<Rightarrow>
     event list \<times> (error + ClosedCoilSolver)" where
  "solveOpenCoils ops gridfunctions scalars s =
     (case solveOpenCoils_iteration ops gridfunctions scalars 0 s of
        (ev0, Inl e) \<Rightarrow> (ev0, Inl e)
      | (ev0, Inr s0) \<Rightarrow>
          (case solveOpenCoils_iteration ops gridfunctions scalars 1 s0 of
             (ev1, Inl e) \<Rightarrow> (ev0 @ ev1, Inl e)
           | (ev1, Inr s1) \<Rightarrow>
               (ev0 @ ev1, Inr (s1\<lparr>cc_elec_attrs := prod.swap (cc_elec_attrs s1)\<rparr>))))"

text \<open>
  \<^verbatim>\<open>
  void ClosedCoilSolver::Init(gridfunctions, fespaces, bc_map, coefficients) {
    HCurlFESpace_parent_ = fespaces.Get(hcurl_fespace_name_);
    if (HCurlFESpace_parent_ == nullptr) {
      const std::string error_message = hcurl_fespace_name_ +
          " not found in fespaces when creating ClosedCoilSolver\n";
      mfem::mfem_error(error_message.c_str());
    }
    J_parent_ = gridfunctions.Get(J_gf_name_);
    if (J_parent_ == nullptr) {
      const std::string error_message = J_gf_name_ +
          " not found in gridfunctions when creating ClosedCoilSolver\n";
      mfem::mfem_error(error_message.c_str());
    }
    Itotal_ = coefficients.scalars.Get(I_coef_name_);
    if (Itotal_ == nullptr) {
      std::cout << I_coef_name_ + " not found in coefficients when "
                                  "creating ClosedCoilSolver. "
                                  "Assuming unit current. ";
      Itotal_ = new mfem::ConstantCoefficient(1.0);
    }
    mesh_parent_ = HCurlFESpace_parent_->GetParMesh();
    resizeChildVectors();
    makeWedge();
    solveOpenCoils(gridfunctions, coefficients);
    restoreAttributes();
  }
  \<close>
\<close>

definition ClosedCoilSolver_Init ::
  "ClosedCoil_ops \<Rightarrow> GridFunctions \<Rightarrow> FESpace NamedFieldsMap \<Rightarrow>
     Coefficient NamedFieldsMap \<Rightarrow> ClosedCoilSolver \<Rightarrow>
     event list \<times> (error + ClosedCoilSolver)" where
  "ClosedCoilSolver_Init ops gridfunctions fespaces scalars s =
     (case fespaces (hcurl_fespace_name s) of
        None \<Rightarrow>
          ([], Inl (Abort (not_found_msg (hcurl_fespace_name s) ''fespaces''
                            ''ClosedCoilSolver'' @ [CHR 0x0A])))
      | Some fes \<Rightarrow>
          (case Get_ptr gridfunctions (cc_J_gf_name s) of
             None \<Rightarrow>
               ([], Inl (Abort (not_found_msg (cc_J_gf_name s) ''gridfunctions''
                                 ''ClosedCoilSolver'' @ [CHR 0x0A])))
           | Some Jp \<Rightarrow>
               (let (out, It) =
                      (case scalars (cc_I_coef_name s) of
                         None \<Rightarrow>
                           ([Print (not_found_msg (cc_I_coef_name s) ''coefficients''
                                      ''ClosedCoilSolver'' @ ''. Assuming unit current. '')],
                            ConstantCoefficient (Fin 1))
                       | Some c \<Rightarrow> ([], c));
                    s1 = s\<lparr>HCurlFESpace_parent := Some fes, cc_J_parent := Some Jp,
                           cc_Itotal := Some It\<rparr>;
                    s2 = makeWedge ops (resizeChildVectors s1);
                    (ev, r) = solveOpenCoils ops gridfunctions scalars s2
                in (out @ [Invoke ''resizeChildVectors'', Invoke ''makeWedge'',
                           Invoke ''solveOpenCoils''] @ ev @
                      (case r of Inl e \<Rightarrow> [] | Inr s3 \<Rightarrow> [Invoke ''restoreAttributes'']),
                    r))))"

text \<open>
  \<^verbatim>\<open>
  void ClosedCoilSolver::Apply(mfem::ParLinearForm *lf) {
    for (int i = 0; i < 2; ++i)
      opencoil_[i]->Apply(lf);
    // This is just because the loop above causes double counting at the
    // interfaces This structure is temporary, will change it for the Dular
    // representation
    *lf = 0.0;
    lf->Add(1.0, *J_parent_);
  }
  \<close>
\<close>

fun ClosedCoilSolver_Apply_loop ::
  "ClosedCoil_ops \<Rightarrow> nat list \<Rightarrow> ClosedCoilSolver \<Rightarrow> GridFunctions \<Rightarrow> Vector \<Rightarrow>
     error + (ClosedCoilSolver \<times> GridFunctions \<times> Vector)" where
  "ClosedCoilSolver_Apply_loop ops [] s gfs lf = Inr (s, gfs, lf)"
| "ClosedCoilSolver_Apply_loop ops (i # rest) s gfs lf =
     (if i < length (opencoil s)
      then (case opencoil s ! i of
              None \<Rightarrow> Inl NullPointer
            | Some oc \<Rightarrow>
                (case OpenCoilSolver_Apply (coil_ops ops i) oc gfs lf of
                   Inl e \<Rightarrow> Inl e
                 | Inr (oc2, gfs2, lf2) \<Rightarrow>
                     ClosedCoilSolver_Apply_loop ops rest
                       (s\<lparr>opencoil := (opencoil s)[i := Some oc2]\<rparr>) gfs2 lf2))
      else Inl OutOfBounds)"

definition ClosedCoilSolver_Apply ::
  "ClosedCoil_ops \<Rightarrow> ClosedCoilSolver \<Rightarrow> GridFunctions \<Rightarrow> Vector \<Rightarrow>
     error + (ClosedCoilSolver \<times> GridFunctions \<times> Vector)" where
  "ClosedCoilSolver_Apply ops s gfs lf =
     (case ClosedCoilSolver_Apply_loop ops [0, 1] s gfs lf of
        Inl e \<Rightarrow> Inl e
      | Inr (s2, gfs2, lf2) \<Rightarrow>
          (case cc_J_parent s2 of
             None \<Rightarrow> Inl NullPointer
           | Some Jp \<Rightarrow>
               (case gfs2 Jp of
                  None \<Rightarrow> Inl NullPointer
                | Some Jpar \<Rightarrow>
                    (case Vector_Add (vec_assign lf2 (Fin 0)) (Fin 1) Jpar of
                       Inl e \<Rightarrow> Inl e
                     | Inr lf3 \<Rightarrow> Inr (s2, gfs2, lf3)))))"

section \<open>Block offsets\<close>

text \<open>
  \<open>mfem::Array<int>::PartialSum\<close> replaces every entry by the sum of the entries up
  to and including it:
  \<^verbatim>\<open>
    T sum = static_cast<T>(0);
    for (int i = 0; i < size; i++) { sum += data[i]; data[i] = sum; }
  \<close>
  The entries are C++ \<open>int\<close>s of 32 bits. A sum that leaves the range is undefined
  in C++; the machine wraps it around modulo \<open>2^32\<close>, and so does the model.
\<close>

definition wrap_int32 :: "int \<Rightarrow> int" where
  "wrap_int32 x = (x + 2 ^ 31) mod 2 ^ 32 - 2 ^ 31"

fun PartialSum_loop :: "int \<Rightarrow> int list \<Rightarrow> int list" where
  "PartialSum_loop acc [] = []"
| "PartialSum_loop acc (x # xs) =
     wrap_int32 (acc + x) # PartialSum_loop (wrap_int32 (acc + x)) xs"

definition PartialSum :: "int list \<Rightarrow> int list" where
  "PartialSum data = PartialSum_loop 0 data"

text \<open>
  \<^verbatim>\<open>
  // AVSolver::AVSolver
  true_offsets.SetSize(3);
  true_offsets[0] = 0;
  true_offsets[1] = H1FESpace_->GetVSize();
  true_offsets[2] = HCurlFESpace_->GetVSize();
  true_offsets.PartialSum();

  // HCurlSolver::RegisterVariables
  true_offsets.SetSize(2);
  true_offsets[0] = 0;
  true_offsets[1] = u_->ParFESpace()->GetVSize();
  true_offsets.PartialSum();
  \<close>
\<close>

definition AVSolver_true_offsets :: "FESpace \<Rightarrow> FESpace \<Rightarrow> int list" where
  "AVSolver_true_offsets H1FESpace HCurlFESpace =
     PartialSum [0, GetVSize H1FESpace, GetVSize HCurlFESpace]"

definition HCurlSolver_true_offsets :: "FESpace \<Rightarrow> int list" where
  "HCurlSolver_true_offsets u_ParFESpace = PartialSum [0, GetVSize u_ParFESpace]"

text \<open>
  The offset table in the words of the specification: offset 0 first, each later offset
  the sum of the sizes of all the variables before it.
\<close>

definition prefix_sums :: "int list \<Rightarrow> int list" where
  "prefix_sums sizes = map (\<lambda>k. sum_list (take k sizes)) [0..<Suc (length sizes)]"

text \<open>The values of a C++ \<open>int\<close>.\<close>

definition is_int32 :: "int \<Rightarrow> bool" where
  "is_int32 x = (- (2 ^ 31) \<le> x \<and> x < 2 ^ 31)"

section \<open>Forms, solvers and the operations of the library\<close>

text \<open>
  An assembled bilinear form is given by its domain integrators, each with the
  coefficient that \<open>Assemble\<close> read. The matrices and vectors that the library
  computes from the forms, the boundary conditions and the solvers enter as a
  parameter, one function for each call that the operators make.
\<close>

datatype integrator =
    DiffusionIntegrator Coefficient
  | VectorFEMassIntegrator Coefficient
  | CurlCurlIntegrator Coefficient
  | MixedVectorGradientIntegrator Coefficient

type_synonym BilinearForm = "integrator list"

type_synonym HypreParMatrix = "dbl list list"

record Solver =
  solver_class :: string
  solver_A :: HypreParMatrix
  Tol :: dbl
  MaxIter :: int
  PrintLevel :: int
  preconditioner_class :: string

text \<open>
  \<open>Mult(b, x)\<close> of a solver returns nothing. What the solver knows after the call,
  besides the vector it left in \<open>x\<close>, is kept here in the result: whether the
  iteration converged, the number of iterations and the final residual. A failure
  inside \<open>Mult\<close> that ends the process is the error case.
\<close>

record MultResult =
  solution :: Vector
  converged :: bool
  num_iterations :: int
  final_residual :: dbl

record mfem_ops =
  prodFunc :: "dbl \<Rightarrow> dbl \<Rightarrow> dbl"
  fracFunc :: "dbl \<Rightarrow> dbl \<Rightarrow> dbl"
  applyEssentialBCs :: "string \<Rightarrow> Vector \<Rightarrow> nat list \<times> Vector"
  applyIntegratedBCs :: "string \<Rightarrow> Vector \<Rightarrow> Vector"
  LinearForm_Assemble :: "Vector \<Rightarrow> Vector"
  FormLinearSystem ::
    "BilinearForm \<Rightarrow> nat list \<Rightarrow> Vector \<Rightarrow> Vector \<Rightarrow> HypreParMatrix \<times> Vector \<times> Vector"
  RecoverFEMSolution :: "BilinearForm \<Rightarrow> Vector \<Rightarrow> Vector \<Rightarrow> Vector \<Rightarrow> Vector"
  Mult :: "Solver \<Rightarrow> HypreParMatrix \<Rightarrow> Vector \<Rightarrow> Vector \<Rightarrow> error + MultResult"
  MultTranspose :: "BilinearForm \<Rightarrow> Vector \<Rightarrow> Vector"
  AddMult :: "BilinearForm \<Rightarrow> Vector \<Rightarrow> Vector \<Rightarrow> dbl \<Rightarrow> Vector"
  grad_Mult :: "Vector \<Rightarrow> Vector"
  add_div_free_source :: "Vector \<Rightarrow> Vector"

text \<open>
  The caller of \<open>Mult(b, x)\<close> holds the vector \<open>x\<close> after the call and nothing
  else.
\<close>

definition x_after_Mult :: "error + MultResult \<Rightarrow> error + Vector" where
  "x_after_Mult r = map_sum id solution r"

text \<open>
  \<open>gf.MakeRef(fes, X, offset)\<close> makes the grid function a view of the entries of
  \<open>X\<close> from \<open>offset\<close> on, as many as the space has local degrees of freedom.
\<close>

definition MakeRef :: "FESpace \<Rightarrow> Vector \<Rightarrow> int \<Rightarrow> error + Vector" where
  "MakeRef fes X offset =
     (if 0 \<le> offset \<and> 0 \<le> GetVSize fes \<and> offset + GetVSize fes \<le> int (length X)
      then Inr (take (nat (GetVSize fes)) (drop (nat offset) X))
      else Inl OutOfBounds)"

section \<open>AVSolver\<close>

text \<open>
  The grid functions \<open>p_\<close>, \<open>u_\<close>, \<open>dp_\<close> and \<open>du_\<close> are \<open>p_gf\<close>, \<open>u_gf\<close>,
  \<open>dp_gf\<close> and \<open>du_gf\<close>. During a step the first two are views of the blocks of the
  state vector \<open>X\<close>, the last two of the blocks of \<open>dX_dt\<close>: the caller reads the
  result of a step from \<open>dp_gf\<close> and \<open>du_gf\<close>. The member \<open>dt_A1\<close> has no
  initialiser: its first value is an argument of the constructor below.
\<close>

record AVSolver =
  H1FESpace :: FESpace
  HCurlFESpace :: FESpace
  true_offsets :: "int list"
  height :: int
  width :: int
  variables :: "string list"
  p_name :: string
  u_name :: string
  dtCoef :: dbl
  alphaCoef :: "Coefficient option"
  betaCoef :: "Coefficient option"
  sourceVecCoef :: "Coefficient option"
  a0 :: "BilinearForm option"
  a1 :: "BilinearForm option"
  m1 :: "BilinearForm option"
  curlCurl :: "BilinearForm option"
  grad :: "unit option"
  dt_A1 :: dbl
  amg_a0 :: "Solver option"
  pcg_a0 :: "Solver option"
  ams_a1 :: "Solver option"
  pcg_a1 :: "Solver option"
  b0 :: "Vector option"
  b1 :: "Vector option"
  A0 :: HypreParMatrix
  A1 :: HypreParMatrix
  X0 :: Vector
  X1 :: Vector
  B0 :: Vector
  B1 :: Vector
  p_gf :: Vector
  u_gf :: Vector
  dp_gf :: Vector
  du_gf :: Vector

definition AVSolver_new :: "FESpace \<Rightarrow> FESpace \<Rightarrow> dbl \<Rightarrow> AVSolver" where
  "AVSolver_new H1 HCurl indeterminate =
     \<lparr>H1FESpace = H1, HCurlFESpace = HCurl,
      true_offsets = AVSolver_true_offsets H1 HCurl,
      height = AVSolver_true_offsets H1 HCurl ! 2,
      width = AVSolver_true_offsets H1 HCurl ! 2,
      variables = [], p_name = [], u_name = [], dtCoef = indeterminate,
      alphaCoef = None, betaCoef = None, sourceVecCoef = None,
      a0 = None, a1 = None, m1 = None, curlCurl = None, grad = None,
      dt_A1 = indeterminate, amg_a0 = None, pcg_a0 = None, ams_a1 = None, pcg_a1 = None,
      b0 = None, b1 = None, A0 = [], A1 = [], X0 = [], X1 = [], B0 = [], B1 = [],
      p_gf = replicate (nat (GetVSize H1)) indeterminate,
      u_gf = replicate (nat (GetVSize HCurl)) indeterminate,
      dp_gf = replicate (nat (GetVSize H1)) indeterminate,
      du_gf = replicate (nat (GetVSize HCurl)) indeterminate\<rparr>"

text \<open>
  \<^verbatim>\<open>
  void AVSolver::buildA1(mfem::Coefficient *Sigma, mfem::Coefficient *DtMuInv) {
    if (a1 != NULL) { delete a1; }
    a1 = new mfem::ParBilinearForm(HCurlFESpace_);
    a1->AddDomainIntegrator(new mfem::VectorFEMassIntegrator(*Sigma));
    a1->AddDomainIntegrator(new mfem::CurlCurlIntegrator(*DtMuInv));
    a1->Assemble();
    dt_A1 = dtCoef.constant;
  }
  \<close>
  \<open>dtAlphaCoef\<close> is the coefficient \<open>prodFunc(dtCoef, alphaCoef)\<close>; it reads the
  constant of \<open>dtCoef\<close> when the form is assembled.
\<close>

definition dtAlphaCoef :: "mfem_ops \<Rightarrow> dbl \<Rightarrow> Coefficient \<Rightarrow> Coefficient" where
  "dtAlphaCoef ext dt alpha = (\<lambda>p. prodFunc ext dt (alpha p))"

definition buildA1 :: "mfem_ops \<Rightarrow> Coefficient \<Rightarrow> Coefficient \<Rightarrow> AVSolver \<Rightarrow> AVSolver" where
  "buildA1 ext Sigma_coef alpha s =
     s\<lparr>a1 := Some [VectorFEMassIntegrator Sigma_coef,
                    CurlCurlIntegrator (dtAlphaCoef ext (dtCoef s) alpha)],
       dt_A1 := dtCoef s\<rparr>"

definition buildM1 :: "Coefficient \<Rightarrow> AVSolver \<Rightarrow> AVSolver" where
  "buildM1 Sigma_coef s = s\<lparr>m1 := Some [VectorFEMassIntegrator Sigma_coef]\<rparr>"

definition buildCurl :: "Coefficient \<Rightarrow> AVSolver \<Rightarrow> AVSolver" where
  "buildCurl MuInv s = s\<lparr>curlCurl := Some [CurlCurlIntegrator MuInv]\<rparr>"

definition buildGrad :: "AVSolver \<Rightarrow> AVSolver" where
  "buildGrad s = s\<lparr>grad := Some ()\<rparr>"

text \<open>
  \<open>Init\<close> registers the two variables (\<open>u\<close> first), reads the material
  coefficients from the domain properties (\<open>alphaCoef\<close> is
  \<open>fracFunc(1, magnetic_permeability)\<close>, \<open>betaCoef\<close> the electrical
  conductivity), builds \<open>a0\<close>, \<open>m1\<close>, the curl-curl form and the gradient, allocates
  the linear forms and sets both fields to zero. An entry that the property map does
  not hold is a null pointer, which the assembly then dereferences. Of the source, a
  vector coefficient, only its presence enters.
\<close>

definition AVSolver_Init ::
  "mfem_ops \<Rightarrow> Coefficient NamedFieldsMap \<Rightarrow> Coefficient NamedFieldsMap \<Rightarrow> Vector \<Rightarrow>
     AVSolver \<Rightarrow> error + AVSolver" where
  "AVSolver_Init ext scalar_property_map vector_property_map X s =
     (case (scalar_property_map ''magnetic_permeability'',
            scalar_property_map ''electrical_conductivity'') of
        (Some mu, Some sigma) \<Rightarrow>
          (let s1 = s\<lparr>p_name := ''electric_potential'',
                      u_name := ''magnetic_vector_potential'',
                      variables := variables s @
                        [''magnetic_vector_potential'', ''electric_potential''],
                      dtCoef := Fin 1,
                      alphaCoef := Some (\<lambda>p. fracFunc ext (Fin 1) (mu p)),
                      betaCoef := Some sigma,
                      sourceVecCoef := vector_property_map ''source''\<rparr>;
               s2 = (if sourceVecCoef s1 = None then s1
                     else s1\<lparr>variables := variables s1 @ [''source'']\<rparr>);
               s3 = s2\<lparr>a0 := Some [DiffusionIntegrator sigma]\<rparr>;
               s4 = buildGrad (buildCurl (\<lambda>p. fracFunc ext (Fin 1) (mu p)) (buildM1 sigma s3));
               s5 = s4\<lparr>b0 := Some (replicate (nat (GetVSize (H1FESpace s))) (Fin 0)),
                       b1 := Some (replicate (nat (GetVSize (HCurlFESpace s))) (Fin 0))\<rparr>
           in if length (true_offsets s) < 2 then Inl OutOfBounds
              else (case (MakeRef (H1FESpace s) X (true_offsets s ! 0),
                          MakeRef (HCurlFESpace s) X (true_offsets s ! 1)) of
                      (Inr p, Inr u) \<Rightarrow>
                        Inr (s5\<lparr>p_gf := vec_assign p (Fin 0),
                                u_gf := vec_assign u (Fin 0)\<rparr>)
                    | _ \<Rightarrow> Inl OutOfBounds))
      | _ \<Rightarrow> Inl NullPointer)"

text \<open>
  The grid functions that \<open>Init\<close> and \<open>buildSource\<close> register live on the
  spaces they were constructed with: \<open>u_\<close> and the source on \<open>HCurlFESpace_\<close>,
  \<open>p_\<close> on \<open>H1FESpace_\<close>. The spaces of the registered variables, in the order
  of registration:
\<close>

definition AVSolver_registered_spaces :: "AVSolver \<Rightarrow> FESpace list" where
  "AVSolver_registered_spaces s =
     map (\<lambda>name. if name = p_name s then H1FESpace s else HCurlFESpace s) (variables s)"

text \<open>
  The solvers of the two systems are created when the pointer is null and kept
  afterwards:
  \<^verbatim>\<open>
  // We only need to create the solver and preconditioner once
  if (ams_a1 == NULL) {
    ams_a1 = new mfem::HypreAMS(*A1, HCurlFESpace_);
    ams_a1->SetSingularProblem();
  }
  if (pcg_a1 == NULL) {
    pcg_a1 = new mfem::HyprePCG(*A1);
    pcg_a1->SetTol(1.0e-16);
    pcg_a1->SetMaxIter(1000);
    pcg_a1->SetPrintLevel(0);
    pcg_a1->SetPreconditioner(*ams_a1);
  }
  \<close>
\<close>

definition new_preconditioner :: "string \<Rightarrow> HypreParMatrix \<Rightarrow> Solver" where
  "new_preconditioner cls A =
     \<lparr>solver_class = cls, solver_A = A, Tol = Fin 0, MaxIter = 0, PrintLevel = 0,
      preconditioner_class = []\<rparr>"

definition new_HyprePCG :: "HypreParMatrix \<Rightarrow> dbl \<Rightarrow> int \<Rightarrow> int \<Rightarrow> string \<Rightarrow> Solver" where
  "new_HyprePCG A tol maxiter printlevel prec =
     \<lparr>solver_class = ''HyprePCG'', solver_A = A, Tol = tol, MaxIter = maxiter,
      PrintLevel = printlevel, preconditioner_class = prec\<rparr>"

text \<open>The test that decides whether \<open>a1\<close> is built again:
  \<^verbatim>\<open>if (a1 == NULL || fabs(dt - dt_A1) > 1.0e-12 * dt)\<close>\<close>

definition a1_needs_build :: "dbl \<Rightarrow> AVSolver \<Rightarrow> bool" where
  "a1_needs_build dt s =
     (a1 s = None \<or> dless (dmul literal_1e_12 dt) (fabs (dsub dt (dt_A1 s))))"

text \<open>
  \<open>ImplicitSolve\<close> follows, in four parts. First the views: \<open>p_\<close> and \<open>u_\<close>
  on the blocks of \<open>X\<close>, \<open>dp_\<close> and \<open>du_\<close> on the blocks of \<open>dX_dt\<close>, which
  is set to zero before.
\<close>

definition AVSolver_views ::
  "Vector \<Rightarrow> Vector \<Rightarrow> AVSolver \<Rightarrow> error + (Vector \<times> Vector \<times> Vector \<times> Vector)" where
  "AVSolver_views X dX0 s =
     (if length (true_offsets s) < 2 then Inl OutOfBounds
      else case (MakeRef (H1FESpace s) X (true_offsets s ! 0),
                 MakeRef (HCurlFESpace s) X (true_offsets s ! 1),
                 MakeRef (H1FESpace s) dX0 (true_offsets s ! 0),
                 MakeRef (HCurlFESpace s) dX0 (true_offsets s ! 1)) of
             (Inr p, Inr u, Inr dp, Inr du) \<Rightarrow> Inr (p, u, dp, du)
           | _ \<Rightarrow> Inl OutOfBounds)"

text \<open>
  The forms, coefficients and linear forms that \<open>Init\<close> has made. A call before
  \<open>Init\<close> uses a null pointer; the model reports it before any event.
\<close>

definition AVSolver_members ::
  "AVSolver \<Rightarrow>
     error + (BilinearForm \<times> BilinearForm \<times> BilinearForm \<times> Coefficient \<times> Coefficient \<times> Vector)"
  where
  "AVSolver_members s =
     (case (a0 s, m1 s, curlCurl s, grad s, betaCoef s, alphaCoef s, b0 s, b1 s) of
        (Some a0f, Some m1f, Some ccf, Some g, Some beta, Some alpha, Some b0v, Some b1v) \<Rightarrow>
          Inr (a0f, m1f, ccf, beta, alpha, b0v)
      | _ \<Rightarrow> Inl NullPointer)"

text \<open>
  The Poisson problem for \<open>p\<close>:
  \<^verbatim>\<open>
  mfem::ParGridFunction Phi_gf(H1FESpace_);
  mfem::Array<int> poisson_ess_tdof_list;
  Phi_gf = 0.0;
  *b0 = 0.0;
  _bc_map.applyEssentialBCs(p_name, poisson_ess_tdof_list, Phi_gf, pmesh_);
  _bc_map.applyIntegratedBCs(p_name, *b0, pmesh_);
  b0->Assemble();
  a0->FormLinearSystem(poisson_ess_tdof_list, Phi_gf, *b0, *A0, *X0, *B0);
  if (amg_a0 == NULL) { amg_a0 = new mfem::HypreBoomerAMG(*A0); }
  if (pcg_a0 == NULL) {
    pcg_a0 = new mfem::HyprePCG(*A0);
    pcg_a0->SetTol(1.0e-9);
    pcg_a0->SetMaxIter(1000);
    pcg_a0->SetPrintLevel(0);
    pcg_a0->SetPreconditioner(*amg_a0);
  }
  pcg_a0->Mult(*B0, *X0);
  a0->RecoverFEMSolution(*X0, *b0, p_);
  dp_ = 0.0;
  \<close>
\<close>

definition AVSolver_solve_a0 ::
  "mfem_ops \<Rightarrow> BilinearForm \<Rightarrow> Vector \<Rightarrow> AVSolver \<Rightarrow> event list \<times> (error + AVSolver)" where
  "AVSolver_solve_a0 ext a0f b0v s =
     (let Phi_gf = replicate (nat (GetVSize (H1FESpace s))) (Fin 0);
          (poisson_ess_tdof_list, Phi) = applyEssentialBCs ext (p_name s) Phi_gf;
          b0a = LinearForm_Assemble ext
                  (applyIntegratedBCs ext (p_name s) (vec_assign b0v (Fin 0)));
          (A0n, X0n, B0n) = FormLinearSystem ext a0f poisson_ess_tdof_list Phi b0a;
          ev = (if amg_a0 s = None then [New ''HypreBoomerAMG(A0)''] else []) @
               (if pcg_a0 s = None then [New ''HyprePCG(A0)''] else []);
          amg = (case amg_a0 s of
                   None \<Rightarrow> new_preconditioner ''HypreBoomerAMG'' A0n
                 | Some a \<Rightarrow> a);
          pcg = (case pcg_a0 s of
                   None \<Rightarrow> new_HyprePCG A0n literal_1e_9 1000 0 (solver_class amg)
                 | Some a \<Rightarrow> a)
      in case x_after_Mult (Mult ext pcg A0n B0n X0n) of
           Inl e \<Rightarrow> (ev, Inl e)
         | Inr X0m \<Rightarrow>
             (ev, Inr (s\<lparr>amg_a0 := Some amg, pcg_a0 := Some pcg, A0 := A0n, X0 := X0m,
                         B0 := B0n, b0 := Some b0a,
                         p_gf := RecoverFEMSolution ext a0f X0m b0a (p_gf s),
                         dp_gf := vec_assign (dp_gf s) (Fin 0)\<rparr>)))"

text \<open>
  The right-hand side \<open>b1\<close>, with \<open>du_\<close> as a temporary:
  \<^verbatim>\<open>
  curlCurl->MultTranspose(u_, *b1);
  *b1 *= -1.0;
  grad->Mult(p_, du_);
  m1->AddMult(du_, *b1, 1.0);
  if (src_gf) {
    src_gf->ProjectCoefficient(*sourceVecCoef);
    divFreeProj->Mult(*src_gf, *div_free_src_gf);
    hCurlMass->AddMult(*div_free_src_gf, *b1);
  }
  \<close>
  \<open>src_gf\<close> is made by \<open>Init\<close> exactly when \<open>sourceVecCoef\<close> is not null.
\<close>

definition AVSolver_build_b1 ::
  "mfem_ops \<Rightarrow> BilinearForm \<Rightarrow> BilinearForm \<Rightarrow> AVSolver \<Rightarrow> AVSolver" where
  "AVSolver_build_b1 ext m1f ccf s =
     (let b1a = vec_mul (MultTranspose ext ccf (u_gf s)) (Fin (- 1));
          du2 = grad_Mult ext (p_gf s);
          b1b = AddMult ext m1f du2 b1a (Fin 1);
          b1c = (if sourceVecCoef s = None then b1b else add_div_free_source ext b1b)
      in s\<lparr>b1 := Some b1c, du_gf := du2\<rparr>)"

text \<open>
  The system for \<open>du/dt\<close>:
  \<^verbatim>\<open>
  mfem::ParGridFunction J_gf(HCurlFESpace_);
  mfem::Array<int> ess_tdof_list;
  J_gf = 0.0;
  _bc_map.applyEssentialBCs(u_name, ess_tdof_list, J_gf, pmesh_);
  _bc_map.applyIntegratedBCs(u_name, *b1, pmesh_);
  if (a1 == NULL || fabs(dt - dt_A1) > 1.0e-12 * dt) {
    this->buildA1(betaCoef, dtAlphaCoef);
  }
  a1->FormLinearSystem(ess_tdof_list, J_gf, *b1, *A1, *X1, *B1);
  // (the two solvers, see above)
  pcg_a1->Mult(*B1, *X1);
  a1->RecoverFEMSolution(*X1, *b1, du_);
  \<close>
\<close>

definition AVSolver_solve_a1 ::
  "mfem_ops \<Rightarrow> dbl \<Rightarrow> Coefficient \<Rightarrow> Coefficient \<Rightarrow> AVSolver \<Rightarrow>
     event list \<times> (error + AVSolver)" where
  "AVSolver_solve_a1 ext dt beta alpha s =
     (case b1 s of
        None \<Rightarrow> ([], Inl NullPointer)
      | Some b1c \<Rightarrow>
          (let J_gf = replicate (nat (GetVSize (HCurlFESpace s))) (Fin 0);
               (ess_tdof_list, J) = applyEssentialBCs ext (u_name s) J_gf;
               b1d = applyIntegratedBCs ext (u_name s) b1c;
               rebuild = a1_needs_build dt s;
               s2 = (if rebuild then buildA1 ext beta alpha s else s);
               ev1 = (if rebuild then [Invoke ''buildA1''] else [])
           in case a1 s2 of
                None \<Rightarrow> (ev1, Inl NullPointer)
              | Some a1f \<Rightarrow>
                  (let (A1n, X1n, B1n) = FormLinearSystem ext a1f ess_tdof_list J b1d;
                       ev2 = (if ams_a1 s = None then [New ''HypreAMS(A1)''] else []) @
                             (if pcg_a1 s = None then [New ''HyprePCG(A1)''] else []);
                       ams = (case ams_a1 s of
                                None \<Rightarrow> new_preconditioner ''HypreAMS'' A1n
                              | Some a \<Rightarrow> a);
                       pcg = (case pcg_a1 s of
                                None \<Rightarrow> new_HyprePCG A1n literal_1e_16 1000 0
                                          (solver_class ams)
                              | Some a \<Rightarrow> a)
                   in case x_after_Mult (Mult ext pcg A1n B1n X1n) of
                        Inl e \<Rightarrow> (ev1 @ ev2, Inl e)
                      | Inr X1m \<Rightarrow>
                          (ev1 @ ev2,
                           Inr (s2\<lparr>ams_a1 := Some ams, pcg_a1 := Some pcg, A1 := A1n,
                                   X1 := X1m, B1 := B1n, b1 := Some b1d,
                                   du_gf := RecoverFEMSolution ext a1f X1m b1d
                                              (du_gf s)\<rparr>)))))"

text \<open>
  The whole step. The events are the constructions of solvers and the call of
  \<open>buildA1\<close>, in program order.
  \<^verbatim>\<open>
  void AVSolver::ImplicitSolve(const double dt, const mfem::Vector &X,
                               mfem::Vector &dX_dt) {
    dX_dt = 0.0;
    dtCoef.constant = dt;
    p_.MakeRef(H1FESpace_, const_cast<mfem::Vector &>(X), true_offsets[0]);
    u_.MakeRef(HCurlFESpace_, const_cast<mfem::Vector &>(X), true_offsets[1]);
    dp_.MakeRef(H1FESpace_, dX_dt, true_offsets[0]);
    du_.MakeRef(HCurlFESpace_, dX_dt, true_offsets[1]);
    _domain_properties.SetTime(this->GetTime());
    ...
  }
  \<close>
\<close>

definition AVSolver_ImplicitSolve ::
  "mfem_ops \<Rightarrow> dbl \<Rightarrow> Vector \<Rightarrow> Vector \<Rightarrow> AVSolver \<Rightarrow> event list \<times> (error + AVSolver)" where
  "AVSolver_ImplicitSolve ext dt X dX_dt s =
     (case AVSolver_views X (vec_assign dX_dt (Fin 0)) s of
        Inl e \<Rightarrow> ([], Inl e)
      | Inr (p, u, dp, du) \<Rightarrow>
          (case AVSolver_members s of
             Inl e \<Rightarrow> ([], Inl e)
           | Inr (a0f, m1f, ccf, beta, alpha, b0v) \<Rightarrow>
               (case AVSolver_solve_a0 ext a0f b0v
                       (s\<lparr>dtCoef := dt, p_gf := p, u_gf := u, dp_gf := dp, du_gf := du\<rparr>) of
                  (ev0, Inl e) \<Rightarrow> (ev0, Inl e)
                | (ev0, Inr s2) \<Rightarrow>
                    (case AVSolver_solve_a1 ext dt beta alpha
                            (AVSolver_build_b1 ext m1f ccf s2) of
                       (ev1, r) \<Rightarrow> (ev0 @ ev1, r)))))"

text \<open>A sequence of steps: one list of events for each invocation, up to the first error.\<close>

fun AVSolver_steps ::
  "mfem_ops \<Rightarrow> (dbl \<times> Vector \<times> Vector) list \<Rightarrow> AVSolver \<Rightarrow>
     event list list \<times> (error + AVSolver)" where
  "AVSolver_steps ext [] s = ([], Inr s)"
| "AVSolver_steps ext ((dt, X, dX_dt) # rest) s =
     (case AVSolver_ImplicitSolve ext dt X dX_dt s of
        (ev, Inl e) \<Rightarrow> ([ev], Inl e)
      | (ev, Inr s2) \<Rightarrow>
          (case AVSolver_steps ext rest s2 of (evs, r) \<Rightarrow> (ev # evs, r)))"

section \<open>HCurlOperator\<close>

text \<open>
  The operator of the H(curl) formulation drives an equation system, whose code is not
  among the sources, and a solver class of the repository derived from the library's
  PCG solver. Both enter as a parameter: the four calls on the equation system (with
  the boundary conditions and sources of the operator), its list of test spaces, and
  \<open>Mult\<close> of the solver. A grid function of the operator is a space with its data.
\<close>

type_synonym ParGridFunction = "FESpace \<times> Vector"

record 'es HCurlOperator_ops =
  setTimeStep :: "dbl \<Rightarrow> 'es \<Rightarrow> 'es"
  updateEquationSystem :: "'es \<Rightarrow> 'es"
  es_FormLinearSystem ::
    "'es \<Rightarrow> ParGridFunction list \<Rightarrow> ParGridFunction list \<Rightarrow> Vector \<Rightarrow> Vector \<Rightarrow>
       HypreParMatrix \<times> Vector \<times> Vector"
  es_RecoverFEMSolution :: "'es \<Rightarrow> Vector \<Rightarrow> ParGridFunction list \<Rightarrow> ParGridFunction list"
  test_pfespaces :: "'es \<Rightarrow> FESpace list"
  a1_solver_Mult :: "Solver \<Rightarrow> HypreParMatrix \<Rightarrow> Vector \<Rightarrow> Vector \<Rightarrow> error + MultResult"

record solver_options =
  opt_Tolerance :: dbl
  opt_MaxIter :: int
  opt_PrintLevel :: int

record 'es HCurlOperator =
  op_true_offsets :: "int list"
  local_test_vars :: "ParGridFunction list"
  local_trial_vars :: "ParGridFunction list"
  equation_system :: 'es
  op_solver_options :: solver_options
  a1_solver :: "Solver option"
  blockA :: HypreParMatrix
  trueX :: Vector
  trueRhs :: Vector

definition new_DefaultHCurlPCGSolver :: "solver_options \<Rightarrow> HypreParMatrix \<Rightarrow> Solver" where
  "new_DefaultHCurlPCGSolver opts A =
     \<lparr>solver_class = ''DefaultHCurlPCGSolver'', solver_A = A, Tol = opt_Tolerance opts,
      MaxIter = opt_MaxIter opts, PrintLevel = opt_PrintLevel opts,
      preconditioner_class = ''HypreAMS''\<rparr>"

text \<open>
  \<^verbatim>\<open>
  for (unsigned int ind = 0; ind < local_test_vars.size(); ++ind) {
    local_test_vars.at(ind)->MakeRef(local_test_vars.at(ind)->ParFESpace(),
                                     const_cast<mfem::Vector &>(X), true_offsets[ind]);
    local_trial_vars.at(ind)->MakeRef(local_trial_vars.at(ind)->ParFESpace(),
                                      dX_dt, true_offsets[ind]);
  }
  \<close>
\<close>

fun HCurlOperator_MakeRef_loop ::
  "nat list \<Rightarrow> int list \<Rightarrow> Vector \<Rightarrow> Vector \<Rightarrow> ParGridFunction list \<Rightarrow>
     ParGridFunction list \<Rightarrow> error + (ParGridFunction list \<times> ParGridFunction list)" where
  "HCurlOperator_MakeRef_loop [] offs X dX_dt tests trials = Inr (tests, trials)"
| "HCurlOperator_MakeRef_loop (ind # rest) offs X dX_dt tests trials =
     (if ind < length tests \<and> ind < length trials \<and> ind < length offs
      then (case (MakeRef (fst (tests ! ind)) X (offs ! ind),
                  MakeRef (fst (trials ! ind)) dX_dt (offs ! ind)) of
              (Inr t, Inr d) \<Rightarrow>
                HCurlOperator_MakeRef_loop rest offs X dX_dt
                  (tests[ind := (fst (tests ! ind), t)])
                  (trials[ind := (fst (trials ! ind), d)])
            | _ \<Rightarrow> Inl OutOfBounds)
      else Inl OutOfBounds)"

text \<open>
  \<^verbatim>\<open>
  _coefficients.SetTime(GetTime());
  _equation_system->setTimeStep(dt);
  _equation_system->updateEquationSystem(_bc_map, _sources);
  _equation_system->FormLinearSystem(blockA, trueX, trueRhs);
  a1_solver = std::make_unique<hephaestus::DefaultHCurlPCGSolver>(
      _solver_options, *blockA.As<mfem::HypreParMatrix>(),
      _equation_system->test_pfespaces.at(0));
  a1_solver->Mult(trueRhs, trueX);
  _equation_system->RecoverFEMSolution(trueX, _gridfunctions);
  \<close>
  The solver is made anew in every call; the one made before is destroyed by the
  assignment.
\<close>

definition HCurlOperator_ImplicitSolve ::
  "'es HCurlOperator_ops \<Rightarrow> dbl \<Rightarrow> Vector \<Rightarrow> Vector \<Rightarrow> 'es HCurlOperator \<Rightarrow>
     event list \<times> (error + 'es HCurlOperator)" where
  "HCurlOperator_ImplicitSolve ops dt X dX_dt s =
     (case HCurlOperator_MakeRef_loop [0..<length (local_test_vars s)] (op_true_offsets s)
             X dX_dt (local_test_vars s) (local_trial_vars s) of
        Inl e \<Rightarrow> ([], Inl e)
      | Inr (tests, trials) \<Rightarrow>
          (let es1 = updateEquationSystem ops (setTimeStep ops dt (equation_system s));
               (A, tX, tRhs) = es_FormLinearSystem ops es1 tests trials (trueX s) (trueRhs s)
           in if test_pfespaces ops es1 = [] then ([], Inl OutOfBounds)
              else (let solver = new_DefaultHCurlPCGSolver (op_solver_options s) A
                    in case x_after_Mult (a1_solver_Mult ops solver A tRhs tX) of
                         Inl e \<Rightarrow> ([New ''DefaultHCurlPCGSolver''], Inl e)
                       | Inr tXm \<Rightarrow>
                           ([New ''DefaultHCurlPCGSolver''],
                            Inr (s\<lparr>local_test_vars := tests,
                                   local_trial_vars :=
                                     es_RecoverFEMSolution ops es1 tXm trials,
                                   equation_system := es1, a1_solver := Some solver,
                                   blockA := A, trueX := tXm, trueRhs := tRhs\<rparr>)))))"

fun HCurlOperator_steps ::
  "'es HCurlOperator_ops \<Rightarrow> (dbl \<times> Vector \<times> Vector) list \<Rightarrow> 'es HCurlOperator \<Rightarrow>
     event list list \<times> (error + 'es HCurlOperator)" where
  "HCurlOperator_steps ops [] s = ([], Inr s)"
| "HCurlOperator_steps ops ((dt, X, dX_dt) # rest) s =
     (case HCurlOperator_ImplicitSolve ops dt X dX_dt s of
        (ev, Inl e) \<Rightarrow> ([ev], Inl e)
      | (ev, Inr s2) \<Rightarrow>
          (case HCurlOperator_steps ops rest s2 of (evs, r) \<Rightarrow> (ev # evs, r)))"

text \<open>
  The reuse policy in the words of the specification: a new solver may be constructed
  only when no solver exists yet, or the operator changed, or the time step moved by
  more than the relative tolerance.
\<close>

definition spec_may_construct :: "bool \<Rightarrow> bool \<Rightarrow> dbl \<Rightarrow> dbl \<Rightarrow> bool" where
  "spec_may_construct solver_exists operator_changed dt_new dt_cached =
     (\<not> solver_exists \<or> operator_changed \<or>
      dless (dmul literal_1e_12 dt_new) (fabs (dsub dt_new dt_cached)))"

section \<open>Kernels and the equation system\<close>

text \<open>
  Of the kernels the sources hold the mixed gradient kernel:
  \<^verbatim>\<open>
  void MixedVectorGradientKernel::Apply(mfem::ParMixedBilinearForm * mblf) {
    mblf->AddDomainIntegrator(new mfem::MixedVectorGradientIntegrator(*_coef));
  }
  \<close>
  \<open>Apply\<close> appends one integrator to the integrators that the form holds already.
\<close>

definition MixedVectorGradientKernel_Apply :: "Coefficient \<Rightarrow> BilinearForm \<Rightarrow> BilinearForm" where
  "MixedVectorGradientKernel_Apply coef mblf = mblf @ [MixedVectorGradientIntegrator coef]"

text \<open>
  Modelled from the spec: the kernel variants of section 4.2 (the classes of the other
  kernels are not among the sources). A kernel contributes one term to a bilinear form,
  to a mixed bilinear form with a trial variable of its own, or to a linear form. The
  coefficient of a term is resolved at \<open>Init\<close> and may be scaled by the time step, so
  the term is given as a function of the time step.
\<close>

datatype Kernel =
    BilinearFormKernel "dbl \<Rightarrow> integrator"
  | MixedBilinearFormKernel string "dbl \<Rightarrow> integrator"
  | LinearFormKernel "Vector \<Rightarrow> Vector"

text \<open>
  Modelled from the spec: \<open>Apply(form)\<close> of section 4.2, which "adds exactly one
  weak-form term to the form object passed by the Equation System", for each kind of
  form; a kernel of another kind leaves the form as it is.
\<close>

fun Kernel_Apply_blf :: "dbl \<Rightarrow> Kernel \<Rightarrow> BilinearForm \<Rightarrow> BilinearForm" where
  "Kernel_Apply_blf dt (BilinearFormKernel contribution) form = form @ [contribution dt]"
| "Kernel_Apply_blf dt k form = form"

fun Kernel_Apply_mblf :: "dbl \<Rightarrow> string \<Rightarrow> Kernel \<Rightarrow> BilinearForm \<Rightarrow> BilinearForm" where
  "Kernel_Apply_mblf dt trial (MixedBilinearFormKernel w contribution) form =
     (if w = trial then form @ [contribution dt] else form)"
| "Kernel_Apply_mblf dt trial k form = form"



text \<open>
  Modelled from the spec: re-applying the kernels of one test variable to a form, in
  registration order.
\<close>

definition apply_blf_kernels ::
  "dbl \<Rightarrow> (string \<times> Kernel) list \<Rightarrow> string \<Rightarrow> BilinearForm \<Rightarrow> BilinearForm" where
  "apply_blf_kernels dt ks v form =
     fold (\<lambda>(test, k) f. if test = v then Kernel_Apply_blf dt k f else f) ks form"






text \<open>
  Modelled from the spec: the terms of a bilinear block after assembly "without
  accumulating duplicate terms" (section 4.2), that is one term for each bilinear kernel
  registered on the variable, in registration order.
\<close>

definition blf_contributions :: "dbl \<Rightarrow> (string \<times> Kernel) list \<Rightarrow> string \<Rightarrow> BilinearForm" where
  "blf_contributions dt ks v =
     concat (map (\<lambda>(test, k). if test = v then Kernel_Apply_blf dt k [] else []) ks)"

section \<open>Concrete inputs\<close>

text \<open>
  Small inputs on which the definitions are evaluated: a child mesh with one degree of
  freedom in each space that covers its parent, registries with the named entries only,
  and the coils that \<open>Init\<close> builds from them. Further below, a library on spaces
  with one degree of freedom whose systems are \<open>1 * x = 1\<close>: the solver leaves the
  right-hand side in \<open>x\<close> when it converges, and the initial guess, with residual 1,
  when it does not.
\<close>

text \<open>
  Some doubles: 0.7, that is the double nearest to 7/10; 2.0999999999999996, its product
  with 3 as rounded; the smallest positive double; and a time step above 1 that the
  tolerance test of \<open>AVSolver\<close> takes for 1.
\<close>

definition example_0_7 :: real where
  "example_0_7 = 3152519739159347 / 2 ^ 52"

definition example_2_1 :: real where
  "example_2_1 = 4728779608739020 / 2 ^ 51"

definition example_tiny :: real where
  "example_tiny = 1 / 2 ^ 1074"

definition example_dt :: dbl where
  "example_dt = Fin (1 + 1 / 2 ^ 43)"

definition example_ops :: "dbl \<Rightarrow> SubMesh_ops" where
  "example_ops flux =
     \<lparr>H1_VSize = 1, HCurl_VSize = 1,
      Transfer_HCurl = (\<lambda>src dst. src), Transfer_H1 = (\<lambda>src dst. src),
      ScalarPotentialSource_fields = (\<lambda>J V. ([Fin 6], [Fin 3])),
      calcFlux = (\<lambda>J face. flux)\<rparr>"

definition example_gridfunctions :: "string list \<Rightarrow> GridFunctions" where
  "example_gridfunctions names = (\<lambda>n. if n \<in> set names then Some [Fin 0] else None)"

definition example_scalars :: "dbl \<Rightarrow> Coefficient NamedFieldsMap" where
  "example_scalars I = (\<lambda>n. if n = ''I'' then Some (ConstantCoefficient I) else None)"

definition example_coil :: "dbl \<Rightarrow> OpenCoilSolver" where
  "example_coil I =
     \<lparr>J_gf_name = ''J'', V_gf_name = ''Phi'', I_coef_name = ''I'', coil_domains = [1],
      elec_attrs = (1, 2), ref_face = 1, Itotal = Some (ConstantCoefficient I),
      J_parent = Some ''J'', V_parent = Some ''Phi'', J_child = Some [Fin 2],
      V_child = Some [Fin 1], high_terminal = [1], low_terminal = [2]\<rparr>"

definition example_closed_ops :: ClosedCoil_ops where
  "example_closed_ops =
     \<lparr>attributes_Max = 1, bdr_attributes_Max = 2, coil_ops = (\<lambda>i. example_ops (Fin 3))\<rparr>"

definition example_fespaces :: "FESpace NamedFieldsMap" where
  "example_fespaces =
     (\<lambda>n. if n = ''HCurl'' then Some \<lparr>GetVSize = 1, GetTrueVSize = 1\<rparr> else None)"

definition example_closed_coil :: ClosedCoilSolver where
  "example_closed_coil =
     \<lparr>hcurl_fespace_name = ''HCurl'', cc_J_gf_name = ''J'', cc_I_coef_name = ''I'',
      cc_coil_domains = [1], cc_elec_attrs = (1, 3), new_domain_attr = Some 2,
      cc_Itotal = Some (ConstantCoefficient (Fin 4)), cc_J_parent = Some ''J'',
      HCurlFESpace_parent = Some \<lparr>GetVSize = 1, GetTrueVSize = 1\<rparr>,
      submesh_domains = [[1], [2]],
      opencoil =
        [Some ((example_coil (Fin 4))\<lparr>V_parent := None, elec_attrs := (1, 3),
                 low_terminal := [3]\<rparr>),
         Some ((example_coil (Fin 4))\<lparr>V_parent := None, coil_domains := [2],
                 elec_attrs := (3, 1), high_terminal := [3], low_terminal := [1]\<rparr>)]\<rparr>"


definition example_mfem :: "bool \<Rightarrow> mfem_ops" where
  "example_mfem conv =
     \<lparr>prodFunc = dmul, fracFunc = ddiv,
      applyEssentialBCs = (\<lambda>name gf. ([], gf)),
      applyIntegratedBCs = (\<lambda>name b. map (\<lambda>y. dadd y (Fin 1)) b),
      LinearForm_Assemble = (\<lambda>b. b),
      FormLinearSystem = (\<lambda>form ess x b. ([[Fin 1]], x, b)),
      RecoverFEMSolution = (\<lambda>form X b x. X),
      Mult = (\<lambda>solver A B X.
                Inr \<lparr>solution = (if conv then B else X), converged = conv,
                     num_iterations = MaxIter solver,
                     final_residual = (if conv then Fin 0 else Fin 1)\<rparr>),
      MultTranspose = (\<lambda>form u. u),
      AddMult = (\<lambda>form x y a. y),
      grad_Mult = (\<lambda>p. [Fin 0]),
      add_div_free_source = (\<lambda>b. b)\<rparr>"

definition example_properties :: "Coefficient NamedFieldsMap" where
  "example_properties =
     (\<lambda>n. if n = ''magnetic_permeability'' \<or> n = ''electrical_conductivity''
          then Some (ConstantCoefficient (Fin 1)) else None)"

definition example_AVSolver :: AVSolver where
  "example_AVSolver =
     projr (AVSolver_Init (example_mfem True) example_properties (\<lambda>n. None) [Fin 0, Fin 0]
              (AVSolver_new \<lparr>GetVSize = 1, GetTrueVSize = 1\<rparr>
                 \<lparr>GetVSize = 1, GetTrueVSize = 1\<rparr> NaN))"

definition example_AVSolver_stepped :: AVSolver where
  "example_AVSolver_stepped =
     projr (snd (AVSolver_ImplicitSolve (example_mfem True) (Fin 1) [Fin 0, Fin 0]
                   [Fin 0, Fin 0] example_AVSolver))"

definition example_HCurl_ops :: "bool \<Rightarrow> dbl HCurlOperator_ops" where
  "example_HCurl_ops conv =
     \<lparr>setTimeStep = (\<lambda>dt es. dt), updateEquationSystem = (\<lambda>es. es),
      es_FormLinearSystem = (\<lambda>es tests trials x rhs. ([[Fin 1]], x, [Fin 1])),
      es_RecoverFEMSolution = (\<lambda>es X trials. map (\<lambda>gf. (fst gf, X)) trials),
      test_pfespaces = (\<lambda>es. [\<lparr>GetVSize = 1, GetTrueVSize = 1\<rparr>]),
      a1_solver_Mult = (\<lambda>solver A B X.
                Inr \<lparr>solution = (if conv then B else X), converged = conv,
                     num_iterations = MaxIter solver,
                     final_residual = (if conv then Fin 0 else Fin 1)\<rparr>)\<rparr>"

definition example_HCurlOperator :: "dbl HCurlOperator" where
  "example_HCurlOperator =
     \<lparr>op_true_offsets = [0, 1],
      local_test_vars = [(\<lparr>GetVSize = 1, GetTrueVSize = 1\<rparr>, [Fin 0])],
      local_trial_vars = [(\<lparr>GetVSize = 1, GetTrueVSize = 1\<rparr>, [Fin 0])],
      equation_system = Fin 1,
      op_solver_options = \<lparr>opt_Tolerance = literal_1e_16, opt_MaxIter = 1,
                            opt_PrintLevel = 0\<rparr>,
      a1_solver = None, blockA = [], trueX = [Fin 0], trueRhs = [Fin 0]\<rparr>"

definition example_HCurlOperator_stepped :: "dbl HCurlOperator" where
  "example_HCurlOperator_stepped =
     example_HCurlOperator
       \<lparr>local_trial_vars := [(\<lparr>GetVSize = 1, GetTrueVSize = 1\<rparr>, [Fin 1])],
        a1_solver := Some (new_DefaultHCurlPCGSolver
                            (op_solver_options example_HCurlOperator) [[Fin 1]]),
        blockA := [[Fin 1]], trueX := [Fin 1], trueRhs := [Fin 1]\<rparr>"




section \<open>Properties of the double precision model\<close>

text \<open>
  Rounding leaves an integer below \<open>2^53\<close> alone; the rounded value of a number
  is given by its binade; a magnitude of \<open>2^1024\<close> or more is rounded to an
  infinity; rounding commutes with the change of sign.
\<close>

lemma round_half_even_of_int: "round_half_even (of_int n) = n"
  by (simp add: round_half_even_def)

lemma round_half_even_lower: "of_int m \<le> t \<Longrightarrow> m \<le> round_half_even t"
proof -
  assume "of_int m \<le> t"
  then have "m \<le> \<lfloor>t\<rfloor>" by (simp add: le_floor_iff)
  then show ?thesis by (simp add: round_half_even_def)
qed

lemma round_half_even_upper: "t \<le> of_int m \<Longrightarrow> round_half_even t \<le> m"
proof -
  assume a: "t \<le> of_int m"
  have f: "\<lfloor>t\<rfloor> \<le> m" using a by (simp add: floor_le_iff)
  show ?thesis
  proof (cases "t = of_int \<lfloor>t\<rfloor>")
    case True
    then have "t - of_int \<lfloor>t\<rfloor> = 0" by simp
    then show ?thesis using f by (simp add: round_half_even_def)
  next
    case False
    then have "of_int \<lfloor>t\<rfloor> < t" using of_int_floor_le [of t] by linarith
    with a have "of_int \<lfloor>t\<rfloor> < (of_int m :: real)" by linarith
    then have "\<lfloor>t\<rfloor> < m" by simp
    then show ?thesis by (simp add: round_half_even_def)
  qed
qed

lemma two_powi: "(2::real) powi k = 2 powr (of_int k)"
  using powr_real_of_int' [of 2 k] by simp

lemma two_powi_mono: "k \<le> j \<Longrightarrow> (2::real) powi k \<le> 2 powi j"
  by (simp add: two_powi)

lemma two_powi_pos: "0 < (2::real) powi k"
  by (simp add: two_powi)

lemma two_powi_add: "(2::real) powi (k + j) = 2 powi k * 2 powi j"
  by (simp add: power_int_add)

lemma binade_search_found:
  "e \<le> k \<Longrightarrow> k < e + int n \<Longrightarrow> 2 powi k \<le> x \<Longrightarrow> x < 2 powi (k + 1) \<Longrightarrow>
     binade_search x e n = Some k"
proof (induction n arbitrary: e)
  case 0
  then show ?case by simp
next
  case (Suc n)
  show ?case
  proof (cases "e = k")
    case True
    with Suc.prems show ?thesis by simp
  next
    case False
    with Suc.prems have lt: "e + 1 \<le> k" by simp
    from two_powi_mono [OF lt] Suc.prems(3) have "\<not> x < 2 powi (e + 1)" by linarith
    moreover from Suc.IH [of "e + 1"] lt Suc.prems
    have "binade_search x (e + 1) n = Some k" by simp
    ultimately show ?thesis by simp
  qed
qed

lemma binade_search_beyond:
  "2 powi (e + int n) \<le> x \<Longrightarrow> binade_search x e n = None"
proof (induction n arbitrary: e)
  case 0
  then show ?case by simp
next
  case (Suc n)
  have "(2::real) powi (e + 1) \<le> 2 powi (e + int (Suc n))" by (rule two_powi_mono) simp
  with Suc.prems have "\<not> x < 2 powi (e + 1)" by linarith
  moreover from Suc.IH [of "e + 1"] Suc.prems
  have "binade_search x (e + 1) n = None" by (simp add: add.assoc)
  ultimately show ?case by simp
qed

lemma ulp_exponent_normal:
  assumes "- 1022 \<le> k" and "k \<le> 1023" and "2 powi k \<le> x" and "x < 2 powi (k + 1)"
  shows "ulp_exponent x = Some (k - 52)"
proof -
  from two_powi_mono [OF assms(1)] assms(3) have "\<not> x < 2 powi (- 1022)" by linarith
  moreover from binade_search_found [of "- 1022" k 2046 x] assms
  have "binade_search x (- 1022) 2046 = Some k" by simp
  ultimately show ?thesis by (simp add: ulp_exponent_def)
qed

lemma ulp_exponent_subnormal: "x < 2 powi (- 1022) \<Longrightarrow> ulp_exponent x = Some (- 1074)"
  by (simp add: ulp_exponent_def)

lemma ulp_exponent_overflow:
  assumes "2 powi 1024 \<le> x"
  shows "ulp_exponent x = None"
proof -
  from two_powi_mono [of "- 1022" 1024] assms have "\<not> x < 2 powi (- 1022)" by linarith
  moreover from binade_search_beyond [of "- 1022" 2046 x] assms
  have "binade_search x (- 1022) 2046 = None" by simp
  ultimately show ?thesis by (simp add: ulp_exponent_def)
qed


lemma round_magnitude_exact:
  assumes "ulp_exponent x = Some q" and "x / 2 powi q = of_int n" and "x < 2 powi 1024"
  shows "round_magnitude x = Fin x"
proof -
  define u :: real where "u = 2 powi q"
  have upos: "0 < u" by (simp add: u_def two_powi_pos)
  have "x / u = of_int n" using assms(2) by (simp add: u_def)
  then have "x = u * of_int n" using upos by (simp add: field_simps)
  then have r: "u * of_int (round_half_even (x / u)) = x"
    using upos by (simp add: round_half_even_of_int)
  from assms(3) have "\<not> 2 powi 1024 \<le> x" by linarith
  then show ?thesis using r by (simp add: round_magnitude_def assms(1) u_def [symmetric])
qed

lemma round_magnitude_value:
  assumes "ulp_exponent x = Some q" and "x \<le> 2 powi j" and "q \<le> j" and "j \<le> 1023"
  shows "round_magnitude x = Fin (2 powi q * of_int (round_half_even (x / 2 powi q)))"
proof -
  define u :: real where "u = 2 powi q"
  define n where "n = round_half_even (x / u)"
  have upos: "0 < u" by (simp add: u_def two_powi_pos)
  have "(2::real) powi (j - q) = 2 ^ nat (j - q)" using assms(3) by (simp add: power_int_def)
  moreover have "u * 2 powi (j - q) = 2 powi j"
    using two_powi_add [of q "j - q"] by (simp add: u_def)
  ultimately have hi: "u * of_int (2 ^ nat (j - q)) = 2 powi j" by simp
  have "x \<le> u * of_int (2 ^ nat (j - q))" using hi assms(2) by simp
  then have "x / u \<le> of_int (2 ^ nat (j - q))"
    using upos by (simp add: divide_le_eq mult.commute)
  then have n_hi: "n \<le> 2 ^ nat (j - q)" unfolding n_def by (rule round_half_even_upper)
  then have "(of_int n :: real) \<le> of_int (2 ^ nat (j - q))" by (simp only: of_int_le_iff)
  then have "u * of_int n \<le> u * of_int (2 ^ nat (j - q))"
    using upos by (simp only: mult_le_cancel_left_pos)
  then have r_hi: "u * of_int n \<le> 2 powi j" by (simp only: hi)
  have "(2::real) powi j \<le> 2 powi 1023" using assms(4) by (rule two_powi_mono)
  moreover have "(2::real) powi 1023 < 2 powi 1024" by simp
  ultimately have "\<not> 2 powi 1024 \<le> u * of_int n" using r_hi by linarith
  then show ?thesis
    by (simp add: round_magnitude_def assms(1) n_def u_def [symmetric])
qed

lemma round64_0 [simp]: "round64 0 = Fin 0"
proof -
  have "(0::real) < 2 powi (- 1022)" by (rule two_powi_pos)
  then have "ulp_exponent 0 = Some (- 1074)" by (rule ulp_exponent_subnormal)
  from round_magnitude_exact [OF this, of 0] two_powi_pos [of 1024]
  show ?thesis by (simp add: round64_def)
qed

lemma binade_exists:
  assumes "0 < x"
  shows "2 powi \<lfloor>log 2 x\<rfloor> \<le> x \<and> x < 2 powi (\<lfloor>log 2 x\<rfloor> + 1)"
proof -
  have "2 powr (of_int \<lfloor>log 2 x\<rfloor>) \<le> 2 powr (log 2 x)" by (intro powr_mono) auto
  moreover have "2 powr (log 2 x) < 2 powr (of_int \<lfloor>log 2 x\<rfloor> + 1)"
    by (intro powr_less_mono) auto
  moreover have "2 powr (log 2 x) = x" using assms by simp
  ultimately show ?thesis by (simp add: two_powi)
qed

lemma round_magnitude_int:
  assumes "0 < m" and "m < 2 ^ 53"
  shows "round_magnitude (of_int m) = Fin (of_int m)"
proof -
  define x :: real where "x = of_int m"
  define k where "k = \<lfloor>log 2 x\<rfloor>"
  have xpos: "0 < x" using assms(1) by (simp add: x_def)
  from binade_exists [OF xpos]
  have lo: "2 powi k \<le> x" and hi: "x < 2 powi (k + 1)" by (simp_all add: k_def)
  have "1 \<le> x" using assms(1) by (simp add: x_def)
  then have "0 \<le> log 2 x" by simp
  then have k0: "0 \<le> k" by (simp add: k_def)
  have "x < 2 powi 53" using assms(2) by (simp add: x_def)
  with lo have lt: "2 powr (of_int k) < (2::real) powr 53" by (simp add: two_powi)
  have "of_int k < (53::real)" by (rule powr_less_cancel [OF lt]) simp
  then have k52: "k \<le> 52" by linarith
  have q: "ulp_exponent x = Some (k - 52)"
    using k0 k52 lo hi by (intro ulp_exponent_normal) simp_all
  have "(2::real) powi (52 - k) = 2 ^ nat (52 - k)" using k52 by (simp add: power_int_def)
  moreover have "(2::real) powi (k - 52) * 2 powi (52 - k) = 1"
    using two_powi_add [of "k - 52" "52 - k"] by simp
  ultimately have "x / 2 powi (k - 52) = x * 2 ^ nat (52 - k)"
    using two_powi_pos [of "k - 52"] by (simp add: field_simps)
  also have "\<dots> = of_int (m * 2 ^ nat (52 - k))" by (simp add: x_def)
  finally have n: "x / 2 powi (k - 52) = of_int (m * 2 ^ nat (52 - k))" .
  have "(2::real) powi (k + 1) \<le> 2 powi 1024" using k52 by (intro two_powi_mono) simp
  with hi have "x < 2 powi 1024" by linarith
  from round_magnitude_exact [OF q n this] show ?thesis by (simp add: x_def)
qed

lemma round64_int [simp]:
  assumes "x \<in> \<int>" and "\<bar>x\<bar> < 2 ^ 53"
  shows "round64 x = Fin x"
proof -
  from assms(1) obtain m where m: "x = of_int m" by (auto elim: Ints_cases)
  with assms(2) have b: "\<bar>m\<bar> < 2 ^ 53" by (simp flip: of_int_abs)
  consider "m = 0" | "0 < m" | "m < 0" by linarith
  then show ?thesis
  proof cases
    case 1
    then show ?thesis by (simp add: m)
  next
    case 2
    with b round_magnitude_int [of m] show ?thesis by (simp add: m round64_def)
  next
    case 3
    with b round_magnitude_int [of "- m"] show ?thesis by (simp add: m round64_def)
  qed
qed

lemma round64_normal:
  assumes "- 1022 \<le> k" and "k \<le> 1022" and "2 powi k \<le> x" and "x < 2 powi (k + 1)"
  shows "round64 x = Fin (2 powi (k - 52) * of_int (round_half_even (x / 2 powi (k - 52))))"
proof -
  have xpos: "0 < x" using assms(3) two_powi_pos [of k] by linarith
  have q: "ulp_exponent x = Some (k - 52)" using assms by (intro ulp_exponent_normal) simp_all
  from assms(4) have le: "x \<le> 2 powi (k + 1)" by simp
  from round_magnitude_value [OF q le] assms(2) xpos show ?thesis by (simp add: round64_def)
qed

lemma round64_subnormal:
  assumes "0 \<le> x" and "x < 2 powi (- 1022)"
  shows "round64 x = Fin (2 powi (- 1074) * of_int (round_half_even (x / 2 powi (- 1074))))"
proof -
  have q: "ulp_exponent x = Some (- 1074)" using assms(2) by (rule ulp_exponent_subnormal)
  from assms(2) have le: "x \<le> 2 powi (- 1022)" by simp
  have "round_magnitude x =
          Fin (2 powi (- 1074) * of_int (round_half_even (x / 2 powi (- 1074))))"
    by (rule round_magnitude_value [OF q le]) simp_all
  with assms(1) show ?thesis by (simp only: round64_def if_True)
qed

lemma round64_overflow:
  assumes "2 powi 1024 \<le> x"
  shows "round64 x = PInf"
proof -
  have "0 < x" using assms two_powi_pos [of 1024] by linarith
  with ulp_exponent_overflow [OF assms] show ?thesis
    by (simp add: round64_def round_magnitude_def)
qed

lemma dneg_dneg [simp]: "dneg (dneg a) = a"
  by (cases a) auto

lemma round64_minus: "round64 (- x) = dneg (round64 x)"
proof -
  consider "x = 0" | "0 < x" | "x < 0" by linarith
  then show ?thesis
  proof cases
    case 1
    then show ?thesis by simp
  next
    case 2
    then show ?thesis by (simp add: round64_def)
  next
    case 3
    then show ?thesis by (simp add: round64_def)
  qed
qed

text \<open>
  At the edges of the range: the largest double is \<open>2^1024 - 2^971\<close>; half a unit
  in the last place above it the rounding gives an infinity; half of the smallest
  positive double is rounded to zero, and one and a half of it to twice it.
\<close>

lemma round64_top_binade:
  assumes "2 powi 1023 \<le> x" and "x < 2 powi 1024"
  shows "round64 x =
           (if (2::real) powi 1024 \<le> 2 powi 971 * of_int (round_half_even (x / 2 powi 971))
            then PInf else Fin (2 powi 971 * of_int (round_half_even (x / 2 powi 971))))"
proof -
  have "0 < x" using assms(1) two_powi_pos [of 1023] by linarith
  moreover from ulp_exponent_normal [of 1023 x] assms
  have "ulp_exponent x = Some 971" by simp
  ultimately show ?thesis by (simp add: round64_def round_magnitude_def)
qed

lemma round64_largest_double: "round64 (2 ^ 1024 - 2 ^ 971) = Fin (2 ^ 1024 - 2 ^ 971)"
  using round64_top_binade [of "2 ^ 1024 - 2 ^ 971"]
  by (simp add: round_half_even_def)

lemma round64_overflow_by_rounding: "round64 (2 ^ 1024 - 2 ^ 970) = PInf"
  using round64_top_binade [of "2 ^ 1024 - 2 ^ 970"]
  by (simp add: round_half_even_def)

lemma round64_smallest_double: "round64 (1 / 2 ^ 1074) = Fin (1 / 2 ^ 1074)"
  using round64_subnormal [of "1 / 2 ^ 1074"]
  by (simp add: round_half_even_def)

lemma round64_underflow: "round64 (1 / 2 ^ 1075) = Fin 0"
  using round64_subnormal [of "1 / 2 ^ 1075"]
  by (simp add: round_half_even_def)

lemma round64_subnormal_tie: "round64 (3 / 2 ^ 1075) = Fin (2 / 2 ^ 1074)"
  using round64_subnormal [of "3 / 2 ^ 1075"]
  by (simp add: round_half_even_def)

text \<open>The doubles that the literals of the source stand for.\<close>

lemma literal_1e_12_value: "literal_1e_12 = Fin (4951760157141521 / 2 ^ 92)"
  unfolding literal_1e_12_def
  using round64_normal [of "- 40" "1 / 10 ^ 12"]
  by (simp add: round_half_even_def)

text \<open>
  The test \<open>fabs(dt - dt_A1) > 1.0e-12 * dt\<close> at some pairs of time steps: it holds
  for 2 against 1, it fails for 1 against 1 and for \<open>1 + 2^(-43)\<close> against 1. It
  also fails for two subnormal time steps that differ by two units in the last place,
  where the product with the tolerance is rounded to the same two units, and for a
  negative subnormal time step against itself, where the product is rounded to zero.
\<close>

lemma tolerance_test_2_1: "dless (dmul literal_1e_12 (Fin 2)) (Fin 1)"
  unfolding literal_1e_12_value
  using round64_normal [of "- 39" "4951760157141521 / 2 ^ 92 * 2"]
  by (simp add: round_half_even_def)

lemma tolerance_test_1_1: "\<not> dless (dmul literal_1e_12 (Fin 1)) (Fin 0)"
  unfolding literal_1e_12_value
  using round64_normal [of "- 40" "4951760157141521 / 2 ^ 92"]
  by (simp add: round_half_even_def)

lemma example_dt_is_double: "round64 (1 + 1 / 2 ^ 43) = Fin (1 + 1 / 2 ^ 43)"
  using round64_normal [of 0 "1 + 1 / 2 ^ 43"]
  by (simp add: round_half_even_def)

lemma example_dt_difference: "dsub example_dt (Fin 1) = Fin (1 / 2 ^ 43)"
  unfolding example_dt_def dsub_def
  using round64_normal [of "- 43" "1 / 2 ^ 43"]
  by (simp add: round_half_even_def)

lemma tolerance_test_example_dt:
  "\<not> dless (dmul literal_1e_12 example_dt) (fabs (dsub example_dt (Fin 1)))"
  unfolding example_dt_difference unfolding literal_1e_12_value example_dt_def
  using round64_normal [of "- 40" "4951760157141521 / 2 ^ 92 * (1 + 1 / 2 ^ 43)"]
  by (simp add: round_half_even_def)

lemma tolerance_test_subnormal:
  "\<not> dless (dmul literal_1e_12 (Fin (1900000000000 / 2 ^ 1074)))
       (fabs (dsub (Fin (1900000000000 / 2 ^ 1074)) (Fin (1899999999998 / 2 ^ 1074))))"
  unfolding literal_1e_12_value dsub_def
  using round64_subnormal [of "4951760157141521 / 2 ^ 92 * (1900000000000 / 2 ^ 1074)"]
        round64_subnormal [of "1900000000000 / 2 ^ 1074 + - (1899999999998 / 2 ^ 1074)"]
  by (simp add: round_half_even_def)

lemma tolerance_test_negative_subnormal:
  "\<not> dless (dmul literal_1e_12 (Fin (- (2024 / 2 ^ 1074))))
       (fabs (dsub (Fin (- (2024 / 2 ^ 1074))) (Fin (- (2024 / 2 ^ 1074)))))"
proof -
  have p: "round64 (4951760157141521 / 2 ^ 92 * (2024 / 2 ^ 1074)) = Fin 0"
    using round64_subnormal [of "4951760157141521 / 2 ^ 92 * (2024 / 2 ^ 1074)"]
    by (simp add: round_half_even_def)
  have "dmul literal_1e_12 (Fin (- (2024 / 2 ^ 1074))) =
          round64 (- (4951760157141521 / 2 ^ 92 * (2024 / 2 ^ 1074)))"
    by (simp add: literal_1e_12_value)
  also have "\<dots> = Fin 0" by (simp only: round64_minus p) simp
  finally have m: "dmul literal_1e_12 (Fin (- (2024 / 2 ^ 1074))) = Fin 0" .
  have d: "dsub (Fin (- (2024 / 2 ^ 1074))) (Fin (- (2024 / 2 ^ 1074))) = Fin 0"
    by (simp add: dsub_def)
  show ?thesis by (simp only: m d) simp
qed

text \<open>
  The double 0.7 times 3 is rounded to 2.0999999999999996, and that divided by 3 to
  0.6999999999999998, the double below 0.7.
\<close>

lemma example_0_7_is_double: "round64 (7 / 10) = Fin example_0_7"
  unfolding example_0_7_def
  using round64_normal [of "- 1" "7 / 10"]
  by (simp add: round_half_even_def)

lemma example_0_7_times_3: "round64 (example_0_7 * 3) = Fin example_2_1"
  unfolding example_0_7_def example_2_1_def
  using round64_normal [of 1 "3152519739159347 / 2 ^ 52 * 3"]
  by (simp add: round_half_even_def)

lemma example_2_1_by_3: "round64 (example_2_1 / 3) = Fin (example_0_7 - 1 / 2 ^ 53)"
  unfolding example_0_7_def example_2_1_def
  using round64_normal [of "- 1" "4728779608739020 / 2 ^ 51 / 3"]
  by (simp add: round_half_even_def)

text \<open>
  The quotients \<open>v /= c\<close> of the examples. For a divisor that is zero or infinite the
  reciprocal is infinite or zero, and for the smallest positive double it is infinite
  as well. On the entries and divisors of the examples the product with the reciprocal
  is the double that the division itself gives.
\<close>

lemma vec_div_by_zero: "vec_div v (Fin 0) = map (\<lambda>y. dmul y PInf) v"
  by (simp add: vec_div_def)

lemma vec_div_by_infinity: "vec_div v PInf = map (\<lambda>y. dmul y (Fin 0)) v"
  by (simp add: vec_div_def)

lemma example_tiny_is_double: "round64 example_tiny = Fin example_tiny"
  unfolding example_tiny_def by (rule round64_smallest_double)

lemma example_tiny_positive:
  "0 < example_tiny" "\<bar>example_tiny\<bar> = example_tiny" "example_tiny \<noteq> 0"
  by (simp_all add: example_tiny_def)

lemma vec_div_by_example_tiny: "vec_div v (Fin example_tiny) = map (\<lambda>y. dmul y PInf) v"
proof -
  have "round64 (1 / example_tiny) = PInf"
    unfolding example_tiny_def by (rule round64_overflow) simp
  then show ?thesis using example_tiny_positive(1) by (simp add: vec_div_def)
qed

lemma vec_div_single:
  assumes "c \<noteq> 0" and "round64 (1 / c) = Fin m" and "round64 (a * m) = Fin q"
  shows "vec_div [Fin a] (Fin c) = [Fin q]"
  using assms by (simp add: vec_div_def)

lemma reciprocal_3: "round64 (1 / 3) = Fin (6004799503160661 / 2 ^ 54)"
  using round64_normal [of "- 2" "1 / 3"]
  by (simp add: round_half_even_def)

lemma reciprocal_4: "round64 (1 / 4) = Fin (1 / 4)"
  using round64_normal [of "- 2" "1 / 4"]
  by (simp add: round_half_even_def)

lemma vec_div_6_3: "vec_div [Fin 6] (Fin 3) = [Fin 2]"
proof -
  have p: "round64 (6 * (6004799503160661 / 2 ^ 54)) = Fin 2"
    using round64_normal [of 0 "6 * (6004799503160661 / 2 ^ 54)"]
    by (simp add: round_half_even_def)
  show ?thesis by (rule vec_div_single [OF _ reciprocal_3 p]) simp
qed

lemma vec_div_3_3: "vec_div [Fin 3] (Fin 3) = [Fin 1]"
proof -
  have p: "round64 (3 * (6004799503160661 / 2 ^ 54)) = Fin 1"
    using round64_normal [of "- 1" "3 * (6004799503160661 / 2 ^ 54)"]
    by (simp add: round_half_even_def)
  show ?thesis by (rule vec_div_single [OF _ reciprocal_3 p]) simp
qed

lemma vec_div_8_4: "vec_div [Fin 8] (Fin 4) = [Fin 2]"
proof -
  have p: "round64 (8 * (1 / 4)) = Fin 2" by simp
  show ?thesis by (rule vec_div_single [OF _ reciprocal_4 p]) simp
qed

lemma vec_div_4_4: "vec_div [Fin 4] (Fin 4) = [Fin 1]"
proof -
  have p: "round64 (4 * (1 / 4)) = Fin 1" by simp
  show ?thesis by (rule vec_div_single [OF _ reciprocal_4 p]) simp
qed

lemma vec_div_example_2_1_3: "vec_div [Fin example_2_1] (Fin 3) = [Fin (example_0_7 - 1 / 2 ^ 53)]"
proof -
  have p: "round64 (example_2_1 * (6004799503160661 / 2 ^ 54)) = Fin (example_0_7 - 1 / 2 ^ 53)"
    unfolding example_0_7_def example_2_1_def
    using round64_normal [of "- 1" "4728779608739020 / 2 ^ 51 * (6004799503160661 / 2 ^ 54)"]
    by (simp add: round_half_even_def)
  show ?thesis by (rule vec_div_single [OF _ reciprocal_3 p]) simp
qed

lemma vec_div_examples_are_quotients:
  "vec_div [Fin 6] (Fin 3) = [ddiv (Fin 6) (Fin 3)]"
  "vec_div [Fin 3] (Fin 3) = [ddiv (Fin 3) (Fin 3)]"
  "vec_div [Fin 8] (Fin 4) = [ddiv (Fin 8) (Fin 4)]"
  "vec_div [Fin 4] (Fin 4) = [ddiv (Fin 4) (Fin 4)]"
  "vec_div v (Fin 0) = map (\<lambda>y. ddiv y (Fin 0)) v"
proof -
  show "vec_div [Fin 6] (Fin 3) = [ddiv (Fin 6) (Fin 3)]" by (simp add: vec_div_6_3)
  show "vec_div [Fin 3] (Fin 3) = [ddiv (Fin 3) (Fin 3)]" by (simp add: vec_div_3_3)
  show "vec_div [Fin 8] (Fin 4) = [ddiv (Fin 8) (Fin 4)]" by (simp add: vec_div_8_4)
  show "vec_div [Fin 4] (Fin 4) = [ddiv (Fin 4) (Fin 4)]" by (simp add: vec_div_4_4)
  have "dmul y PInf = ddiv y (Fin 0)" for y by (cases y) auto
  then show "vec_div v (Fin 0) = map (\<lambda>y. ddiv y (Fin 0)) v" by (simp add: vec_div_by_zero)
qed

section \<open>Properties of isInDomain\<close>

lemma isInDomain_loop_in_range:
  assumes "0 \<le> el" and "el < GetNE mesh"
  shows "isInDomain_loop el doms mesh verify =
           Inr (verify \<or> attributes_of_elements mesh ! nat el \<in> set doms)"
  using assms
  by (induction doms arbitrary: verify) (auto simp: GetAttribute_def)

text \<open>
  Claim C10. For every attribute list and mesh, a negative element index (a ghost
  element) gives \<open>false\<close>; for the index of an element of the mesh the result is
  \<open>true\<close> exactly when the attribute of that element occurs in the list.
\<close>

theorem isInDomain_correct:
  "(el < 0 \<longrightarrow> isInDomain el doms mesh = Inr False) \<and>
   (0 \<le> el \<and> el < GetNE mesh \<longrightarrow>
      isInDomain el doms mesh = Inr (attributes_of_elements mesh ! nat el \<in> set doms))"
  by (simp add: isInDomain_def isInDomain_loop_in_range)

theorem isInDomain_correct_witness:
  "((-1::int) < 0 \<and> isInDomain (-1) [3, 4] \<lparr>attributes_of_elements = [1, 4, 3]\<rparr> = Inr False) \<and>
   ((0::int) \<le> 1 \<and> 1 < GetNE \<lparr>attributes_of_elements = [1, 4, 3]\<rparr> \<and>
      isInDomain 1 [3, 4] \<lparr>attributes_of_elements = [1, 4, 3]\<rparr> = Inr True) \<and>
   ((0::int) \<le> 0 \<and> 0 < GetNE \<lparr>attributes_of_elements = [1, 4, 3]\<rparr> \<and>
      isInDomain 0 [3, 4] \<lparr>attributes_of_elements = [1, 4, 3]\<rparr> = Inr False)"
  using isInDomain_correct [of "-1" "[3, 4]" "\<lparr>attributes_of_elements = [1, 4, 3]\<rparr>"]
        isInDomain_correct [of 1 "[3, 4]" "\<lparr>attributes_of_elements = [1, 4, 3]\<rparr>"]
        isInDomain_correct [of 0 "[3, 4]" "\<lparr>attributes_of_elements = [1, 4, 3]\<rparr>"]
  by (simp add: GetNE_def)

section \<open>Division by the current and by the flux\<close>

lemma dmul_zero_infinity: "dmul (dmul y (Fin 0)) PInf = NaN"
  by (cases y) auto

lemma vec_div_mul_zero: "vec_div (vec_mul v (Fin 0)) (Fin 0) = replicate (length v) NaN"
  by (induction v) (simp_all add: vec_div_def vec_mul_def dmul_zero_infinity)

lemma dmul_infinity_not_finite: "\<not> is_finite (dmul y PInf)"
  by (cases y) auto

lemma OpenCoilSolver_Apply_fields:
  assumes "OpenCoilSolver_Apply ops s gfs lf = Inr (s', gfs', lf')"
    and "Itotal s = Some Itot"
  shows "J_child s' = map_option (\<lambda>J. vec_div (vec_mul J (Eval Itot (0, 0))) (Eval Itot (0, 0))) (J_child s)"
    and "V_child s' = (if V_parent s = None then V_child s
                       else map_option (\<lambda>V. vec_div (vec_mul V (Eval Itot (0, 0))) (Eval Itot (0, 0))) (V_child s))"
  using assms
  by (auto simp: OpenCoilSolver_Apply_def Let_def split: option.splits sum.splits prod.splits)

lemma SPSCurrent_fields:
  assumes "SPSCurrent ops s = Inr s2" and "J_child s = Some J0" and "V_child s = Some V0"
    and "ScalarPotentialSource_fields ops J0 V0 = (J, V)"
  shows "J_child s2 = Some (vec_div J (fabs (calcFlux ops J (ref_face s))))"
    and "V_child s2 = Some (vec_div V (fabs (calcFlux ops J (ref_face s))))"
  using assms by (auto simp: SPSCurrent_def Let_def)

text \<open>
  Claim C9, as amended. \<open>OpenCoilSolver::Apply\<close> multiplies \<open>J_\<close> (and \<open>V_\<close>
  when the parent potential is present) by the evaluated current \<open>I\<close> and divides by
  it again, whatever \<open>I\<close> is: there is no guard. If \<open>I\<close> is zero, every entry of
  the fields touched is NaN afterwards; so a call that leaves \<open>J_\<close> as it was, with
  an entry other than NaN in it, had a current other than zero. \<open>SPSCurrent\<close> divides
  both fields by the absolute value of the flux, with no guard: for a zero flux no entry
  of the two quotients is finite.
\<close>

theorem coil_divisions_need_nonzero_divisor:
  "(OpenCoilSolver_Apply ops s gfs lf = Inr (s', gfs', lf') \<and> Itotal s = Some Itot \<longrightarrow>
      J_child s' =
        map_option (\<lambda>J. vec_div (vec_mul J (Eval Itot (0, 0))) (Eval Itot (0, 0))) (J_child s) \<and>
      V_child s' =
        (if V_parent s = None then V_child s
         else map_option (\<lambda>V. vec_div (vec_mul V (Eval Itot (0, 0))) (Eval Itot (0, 0)))
                (V_child s)) \<and>
      (Eval Itot (0, 0) = Fin 0 \<longrightarrow>
         J_child s' = map_option (\<lambda>J. replicate (length J) NaN) (J_child s) \<and>
         (V_parent s \<noteq> None \<longrightarrow>
            V_child s' = map_option (\<lambda>V. replicate (length V) NaN) (V_child s))) \<and>
      (J_child s' = J_child s \<and> (\<exists>J0 y. J_child s = Some J0 \<and> y \<in> set J0 \<and> y \<noteq> NaN) \<longrightarrow>
         Eval Itot (0, 0) \<noteq> Fin 0)) \<and>
   (SPSCurrent ops s = Inr s2 \<and> J_child s = Some J0 \<and> V_child s = Some V0 \<and>
    ScalarPotentialSource_fields ops J0 V0 = (J, V) \<longrightarrow>
      J_child s2 = Some (vec_div J (fabs (calcFlux ops J (ref_face s)))) \<and>
      V_child s2 = Some (vec_div V (fabs (calcFlux ops J (ref_face s)))) \<and>
      (calcFlux ops J (ref_face s) = Fin 0 \<longrightarrow>
         J_child s2 = Some (vec_div J (Fin 0)) \<and> V_child s2 = Some (vec_div V (Fin 0)) \<and>
         (\<forall>y\<in>set (vec_div J (Fin 0) @ vec_div V (Fin 0)). \<not> is_finite y)))"
proof (intro conjI impI)
  assume h: "OpenCoilSolver_Apply ops s gfs lf = Inr (s', gfs', lf') \<and> Itotal s = Some Itot"
  note f = OpenCoilSolver_Apply_fields [of ops s gfs lf s' gfs' lf' Itot]
  from h f show "J_child s' =
        map_option (\<lambda>J. vec_div (vec_mul J (Eval Itot (0, 0))) (Eval Itot (0, 0))) (J_child s)"
    by simp
  from h f show "V_child s' =
        (if V_parent s = None then V_child s
         else map_option (\<lambda>V. vec_div (vec_mul V (Eval Itot (0, 0))) (Eval Itot (0, 0)))
                (V_child s))"
    by simp
  {
    assume z: "Eval Itot (0, 0) = Fin 0"
    with h f show "J_child s' = map_option (\<lambda>J. replicate (length J) NaN) (J_child s)"
      by (cases "J_child s") (simp_all add: vec_div_mul_zero)
    assume "V_parent s \<noteq> None"
    with z h f show "V_child s' = map_option (\<lambda>V. replicate (length V) NaN) (V_child s)"
      by (cases "V_child s") (simp_all add: vec_div_mul_zero)
  }
  {
    assume r: "J_child s' = J_child s \<and>
               (\<exists>J0 y. J_child s = Some J0 \<and> y \<in> set J0 \<and> y \<noteq> NaN)"
    then obtain J0 y where J0: "J_child s = Some J0" and y: "y \<in> set J0" "y \<noteq> NaN" by blast
    show "Eval Itot (0, 0) \<noteq> Fin 0"
    proof
      assume "Eval Itot (0, 0) = Fin 0"
      with h f(1) J0 have "J_child s' = Some (replicate (length J0) NaN)"
        by (simp add: vec_div_mul_zero)
      with r J0 have "J0 = replicate (length J0) NaN" by simp
      then have "set J0 \<subseteq> {NaN}" by (metis set_replicate_conv_if empty_subsetI subset_refl)
      with y show False by auto
    qed
  }
next
  assume h: "SPSCurrent ops s = Inr s2 \<and> J_child s = Some J0 \<and> V_child s = Some V0 \<and>
    ScalarPotentialSource_fields ops J0 V0 = (J, V)"
  note g = SPSCurrent_fields [of ops s s2 J0 V0 J V]
  from h g show "J_child s2 = Some (vec_div J (fabs (calcFlux ops J (ref_face s))))" by simp
  from h g show "V_child s2 = Some (vec_div V (fabs (calcFlux ops J (ref_face s))))" by simp
  {
    assume z: "calcFlux ops J (ref_face s) = Fin 0"
    with h g show "J_child s2 = Some (vec_div J (Fin 0))" by simp
    from z h g show "V_child s2 = Some (vec_div V (Fin 0))" by simp
  }
  show "\<forall>y\<in>set (vec_div J (Fin 0) @ vec_div V (Fin 0)). \<not> is_finite y"
    by (auto simp: vec_div_by_zero dmul_infinity_not_finite)
qed

text \<open>
  Claim C9 as stated fails: a current other than zero does not make \<open>Apply\<close>
  restore the fields. With \<open>I = 3\<close> and \<open>J_ = [0.7]\<close> the product is rounded to
  2.0999999999999996 and the quotient to 0.6999999999999998, one unit in the last place
  below 0.7, whether the library divides or multiplies by the reciprocal; with an
  infinite \<open>I\<close> the fields are NaN afterwards. Nor does a flux
  other than zero keep the quotients of \<open>SPSCurrent\<close> finite: for the smallest
  positive double they are infinite.
\<close>

theorem nonzero_current_does_not_restore_counterexample:
  "round64 (7 / 10) = Fin example_0_7 \<and>
   map_sum id (J_child \<circ> fst)
     (OpenCoilSolver_Apply (example_ops (Fin 3))
        ((example_coil (Fin 3))\<lparr>J_child := Some [Fin example_0_7]\<rparr>)
        (example_gridfunctions [''J'', ''Phi'']) [Fin 5]) =
     Inr (Some [Fin (example_0_7 - 1 / 2 ^ 53)]) \<and>
   Fin (example_0_7 - 1 / 2 ^ 53) \<noteq> Fin example_0_7 \<and>
   ddiv (dmul (Fin example_0_7) (Fin 3)) (Fin 3) = Fin (example_0_7 - 1 / 2 ^ 53) \<and>
   map_sum id (J_child \<circ> fst)
     (OpenCoilSolver_Apply (example_ops (Fin 3)) (example_coil PInf)
        (example_gridfunctions [''J'', ''Phi'']) [Fin 5]) =
     Inr (Some [NaN]) \<and>
   J_child (example_coil PInf) = Some [Fin 2] \<and>
   round64 example_tiny = Fin example_tiny \<and> Fin example_tiny \<noteq> Fin 0 \<and>
   map_sum id (\<lambda>r. (J_child r, V_child r))
     (SPSCurrent (example_ops (Fin example_tiny)) (example_coil (Fin 4))) =
     Inr (Some [PInf], Some [PInf])"
  by (simp add: example_0_7_is_double example_tiny_is_double)
     (simp add: OpenCoilSolver_Apply_def SPSCurrent_def example_ops_def example_coil_def
        example_gridfunctions_def Eval_def ConstantCoefficient_def vec_mul_def
        Vector_Add_def Let_def example_0_7_times_3 example_2_1_by_3 vec_div_example_2_1_3
        vec_div_3_3 vec_div_by_infinity vec_div_by_example_tiny example_tiny_positive)

theorem coil_divisions_need_nonzero_divisor_witness:
  "(map_sum id (\<lambda>r. (J_child (fst r), V_child (fst r)))
      (OpenCoilSolver_Apply (example_ops (Fin 0)) (example_coil (Fin 0))
         (example_gridfunctions [''J'', ''Phi'']) [Fin 5]) =
      Inr (Some [NaN], Some [NaN])) \<and>
   (map_sum id (\<lambda>r. (J_child (fst r), V_child (fst r)))
      (OpenCoilSolver_Apply (example_ops (Fin 0)) (example_coil (Fin 4))
         (example_gridfunctions [''J'', ''Phi'']) [Fin 5]) =
      Inr (J_child (example_coil (Fin 4)), V_child (example_coil (Fin 4)))) \<and>
   J_child (example_coil (Fin 4)) = Some [Fin 2] \<and>
   Eval (ConstantCoefficient (Fin 4)) (0, 0) \<noteq> Fin 0 \<and>
   (map_sum id (\<lambda>r. (J_child r, V_child r))
      (SPSCurrent (example_ops (Fin 0)) (example_coil (Fin 0))) =
      Inr (Some [PInf], Some [PInf]))"
  using coil_divisions_need_nonzero_divisor
          [of "example_ops (Fin 0)" "example_coil (Fin 0)" "example_gridfunctions [''J'', ''Phi'']"
              "[Fin 5]" "(example_coil (Fin 0))\<lparr>J_child := Some [NaN], V_child := Some [NaN]\<rparr>"
              "(example_gridfunctions [''J'', ''Phi''])(''J'' := Some [Fin 0], ''Phi'' := Some [Fin 0])"
              "[Fin 5]" "ConstantCoefficient (Fin 0)"
              "(example_coil (Fin 0))\<lparr>J_child := Some [PInf], V_child := Some [PInf]\<rparr>"
              "[Fin 2]" "[Fin 1]" "[Fin 6]" "[Fin 3]"]
        coil_divisions_need_nonzero_divisor
          [of "example_ops (Fin 0)" "example_coil (Fin 4)" "example_gridfunctions [''J'', ''Phi'']"
              "[Fin 5]" "example_coil (Fin 4)"
              "(example_gridfunctions [''J'', ''Phi''])(''J'' := Some [Fin 8], ''Phi'' := Some [Fin 4])"
              "[Fin 13]" "ConstantCoefficient (Fin 4)"
              "(example_coil (Fin 4))\<lparr>J_child := Some [PInf], V_child := Some [PInf]\<rparr>"
              "[Fin 2]" "[Fin 1]" "[Fin 6]" "[Fin 3]"]
  by (simp add: OpenCoilSolver_Apply_def SPSCurrent_def example_ops_def example_coil_def
       example_gridfunctions_def Eval_def ConstantCoefficient_def vec_mul_def vec_div_by_zero
       vec_div_8_4 vec_div_4_4 Vector_Add_def Let_def)

section \<open>Missing dependencies at Init\<close>

lemma OpenCoilSolver_Init_continues:
  assumes "scalars (I_coef_name s) = Some I" and "gfs (J_gf_name s) = Some Jv"
  shows "\<exists>s'. OpenCoilSolver_Init ops gfs scalars s =
           ((if gfs (V_gf_name s) = None
             then [Print (V_gf_name s @ '' not found in gridfunctions when creating OpenCoilSolver. '')]
             else []) @
            [Invoke ''initChildMesh'', Invoke ''makeFESpaces'', Invoke ''makeGridFunctions'',
             Invoke ''setBCs'', Invoke ''SPSCurrent''], Inr s') \<and>
           Itotal s' = Some I \<and> J_parent s' = Some (J_gf_name s) \<and>
           V_parent s' = (if gfs (V_gf_name s) = None then None else Some (V_gf_name s))"
  using assms
  by (auto simp: OpenCoilSolver_Init_def Get_ptr_def Let_def SPSCurrent_def makeGridFunctions_def
        setBCs_def not_found_msg_def split: option.splits prod.splits)

text \<open>
  Claim C2, as amended. \<open>OpenCoilSolver::Init\<close> ends the run, before any event, with
  a message naming the missing entity and \<open>OpenCoilSolver\<close> when the current
  coefficient or the source grid function is not registered; when only the potential
  grid function is missing it prints a message, goes through all its steps and returns
  with a null \<open>V_parent_\<close>. \<open>ClosedCoilSolver::Init\<close> ends the run, before any
  event, with a message naming the missing entity and \<open>ClosedCoilSolver\<close> when the
  H(curl) space or the source grid function is not registered.
\<close>

theorem Init_missing_dependency:
  "(scalars (I_coef_name s) = None \<longrightarrow>
      OpenCoilSolver_Init ops gfs scalars s =
        ([], Inl (Abort (I_coef_name s @
               '' not found in coefficients when creating OpenCoilSolver'' @ [CHR 0x0A])))) \<and>
   (scalars (I_coef_name s) \<noteq> None \<and> gfs (J_gf_name s) = None \<longrightarrow>
      OpenCoilSolver_Init ops gfs scalars s =
        ([], Inl (Abort (J_gf_name s @
               '' not found in gridfunctions when creating OpenCoilSolver'' @ [CHR 0x0A])))) \<and>
   (scalars (I_coef_name s) \<noteq> None \<and> gfs (J_gf_name s) \<noteq> None \<and> gfs (V_gf_name s) = None \<longrightarrow>
      (\<exists>s'. OpenCoilSolver_Init ops gfs scalars s =
          ([Print (V_gf_name s @ '' not found in gridfunctions when creating OpenCoilSolver. ''),
            Invoke ''initChildMesh'', Invoke ''makeFESpaces'', Invoke ''makeGridFunctions'',
            Invoke ''setBCs'', Invoke ''SPSCurrent''], Inr s') \<and> V_parent s' = None)) \<and>
   (fespaces (hcurl_fespace_name c) = None \<longrightarrow>
      ClosedCoilSolver_Init cops gfs fespaces scalars c =
        ([], Inl (Abort (hcurl_fespace_name c @
               '' not found in fespaces when creating ClosedCoilSolver'' @ [CHR 0x0A])))) \<and>
   (fespaces (hcurl_fespace_name c) \<noteq> None \<and> gfs (cc_J_gf_name c) = None \<longrightarrow>
      ClosedCoilSolver_Init cops gfs fespaces scalars c =
        ([], Inl (Abort (cc_J_gf_name c @
               '' not found in gridfunctions when creating ClosedCoilSolver'' @ [CHR 0x0A]))))"
proof (intro conjI impI)
  assume "scalars (I_coef_name s) = None"
  then show "OpenCoilSolver_Init ops gfs scalars s =
        ([], Inl (Abort (I_coef_name s @
               '' not found in coefficients when creating OpenCoilSolver'' @ [CHR 0x0A])))"
    by (simp add: OpenCoilSolver_Init_def not_found_msg_def)
next
  assume "scalars (I_coef_name s) \<noteq> None \<and> gfs (J_gf_name s) = None"
  then show "OpenCoilSolver_Init ops gfs scalars s =
        ([], Inl (Abort (J_gf_name s @
               '' not found in gridfunctions when creating OpenCoilSolver'' @ [CHR 0x0A])))"
    by (auto simp: OpenCoilSolver_Init_def not_found_msg_def Get_ptr_def)
next
  assume h: "scalars (I_coef_name s) \<noteq> None \<and> gfs (J_gf_name s) \<noteq> None \<and>
             gfs (V_gf_name s) = None"
  then obtain I Jv where "scalars (I_coef_name s) = Some I" and "gfs (J_gf_name s) = Some Jv"
    by auto
  from OpenCoilSolver_Init_continues [of scalars s I gfs Jv ops] this h
  show "\<exists>s'. OpenCoilSolver_Init ops gfs scalars s =
          ([Print (V_gf_name s @ '' not found in gridfunctions when creating OpenCoilSolver. ''),
            Invoke ''initChildMesh'', Invoke ''makeFESpaces'', Invoke ''makeGridFunctions'',
            Invoke ''setBCs'', Invoke ''SPSCurrent''], Inr s') \<and> V_parent s' = None"
    by auto
next
  assume "fespaces (hcurl_fespace_name c) = None"
  then show "ClosedCoilSolver_Init cops gfs fespaces scalars c =
        ([], Inl (Abort (hcurl_fespace_name c @
               '' not found in fespaces when creating ClosedCoilSolver'' @ [CHR 0x0A])))"
    by (simp add: ClosedCoilSolver_Init_def not_found_msg_def)
next
  assume "fespaces (hcurl_fespace_name c) \<noteq> None \<and> gfs (cc_J_gf_name c) = None"
  then show "ClosedCoilSolver_Init cops gfs fespaces scalars c =
        ([], Inl (Abort (cc_J_gf_name c @
               '' not found in gridfunctions when creating ClosedCoilSolver'' @ [CHR 0x0A])))"
    by (auto simp: ClosedCoilSolver_Init_def not_found_msg_def Get_ptr_def)
qed

text \<open>
  With the current coefficient missing, \<open>ClosedCoilSolver::Init\<close> announces a unit
  current and goes on; the first open coil then looks the same name up in the same
  coefficients and ends the run.
\<close>

lemma ClosedCoilSolver_Init_missing_current:
  assumes "fespaces (hcurl_fespace_name c) = Some fes" and "gfs (cc_J_gf_name c) = Some Jv"
    and "scalars (cc_I_coef_name c) = None"
  shows "ClosedCoilSolver_Init cops gfs fespaces scalars c =
           ([Print (cc_I_coef_name c @
                '' not found in coefficients when creating ClosedCoilSolver. Assuming unit current. ''),
             Invoke ''resizeChildVectors'', Invoke ''makeWedge'', Invoke ''solveOpenCoils'',
             New ''OpenCoilSolver'', Invoke ''OpenCoilSolver::Init''],
            Inl (Abort (cc_I_coef_name c @
                '' not found in coefficients when creating OpenCoilSolver'' @ [CHR 0x0A])))"
  using assms
  by (simp add: ClosedCoilSolver_Init_def Get_ptr_def solveOpenCoils_def
        solveOpenCoils_iteration_def makeWedge_def resizeChildVectors_def
        OpenCoilSolver_Init_def OpenCoilSolver_new_def not_found_msg_def Let_def)

text \<open>
  Claim C2 as stated fails: with the potential \<open>Phi\<close> absent from the grid functions,
  \<open>OpenCoilSolver::Init\<close> prints and carries on to the end.
\<close>

theorem OpenCoilSolver_Init_missing_potential_counterexample:
  "example_gridfunctions [''J''] ''Phi'' = None \<and>
   OpenCoilSolver_Init (example_ops (Fin 3)) (example_gridfunctions [''J''])
       (example_scalars (Fin 4)) (OpenCoilSolver_new ''J'' ''Phi'' ''I'' [1] (1, 2)) =
     ([Print ''Phi not found in gridfunctions when creating OpenCoilSolver. '',
       Invoke ''initChildMesh'', Invoke ''makeFESpaces'', Invoke ''makeGridFunctions'',
       Invoke ''setBCs'', Invoke ''SPSCurrent''],
      Inr ((example_coil (Fin 4))\<lparr>V_parent := None\<rparr>))"
  by (simp add: OpenCoilSolver_Init_def OpenCoilSolver_new_def example_gridfunctions_def
        example_scalars_def example_ops_def example_coil_def Get_ptr_def Let_def SPSCurrent_def
        makeGridFunctions_def setBCs_def not_found_msg_def vec_div_6_3 vec_div_3_3
        eval_nat_numeral)

theorem Init_missing_dependency_witness:
  "(OpenCoilSolver_Init (example_ops (Fin 3)) (example_gridfunctions [''J''])
       (\<lambda>n. None) (OpenCoilSolver_new ''J'' ''Phi'' ''I'' [1] (1, 2)) =
     ([], Inl (Abort (''I not found in coefficients when creating OpenCoilSolver'' @ [CHR 0x0A])))) \<and>
   (example_scalars (Fin 4) ''I'' \<noteq> None \<and> example_gridfunctions [] ''J'' = None \<and>
    OpenCoilSolver_Init (example_ops (Fin 3)) (example_gridfunctions [])
       (example_scalars (Fin 4)) (OpenCoilSolver_new ''J'' ''Phi'' ''I'' [1] (1, 2)) =
     ([], Inl (Abort (''J not found in gridfunctions when creating OpenCoilSolver'' @ [CHR 0x0A])))) \<and>
   (example_gridfunctions [''J''] ''J'' \<noteq> None \<and> example_gridfunctions [''J''] ''Phi'' = None \<and>
    (\<exists>s'. OpenCoilSolver_Init (example_ops (Fin 3)) (example_gridfunctions [''J''])
       (example_scalars (Fin 4)) (OpenCoilSolver_new ''J'' ''Phi'' ''I'' [1] (1, 2)) =
     ([Print ''Phi not found in gridfunctions when creating OpenCoilSolver. '',
       Invoke ''initChildMesh'', Invoke ''makeFESpaces'', Invoke ''makeGridFunctions'',
       Invoke ''setBCs'', Invoke ''SPSCurrent''], Inr s') \<and> V_parent s' = None)) \<and>
   (ClosedCoilSolver_Init example_closed_ops (example_gridfunctions [''J'']) (\<lambda>n. None)
       (\<lambda>n. None) (ClosedCoilSolver_new ''HCurl'' ''J'' ''I'' [1] 1) =
     ([], Inl (Abort (''HCurl not found in fespaces when creating ClosedCoilSolver'' @ [CHR 0x0A])))) \<and>
   (example_fespaces ''HCurl'' \<noteq> None \<and>
    ClosedCoilSolver_Init example_closed_ops (example_gridfunctions []) example_fespaces
       (example_scalars (Fin 4)) (ClosedCoilSolver_new ''HCurl'' ''J'' ''I'' [1] 1) =
     ([], Inl (Abort (''J not found in gridfunctions when creating ClosedCoilSolver'' @ [CHR 0x0A]))))"
  using Init_missing_dependency
          [where scalars = "\<lambda>n. None" and s = "OpenCoilSolver_new ''J'' ''Phi'' ''I'' [1] (1, 2)"
             and ops = "example_ops (Fin 3)" and gfs = "example_gridfunctions [''J'']"
             and fespaces = "\<lambda>n. None" and c = "ClosedCoilSolver_new ''HCurl'' ''J'' ''I'' [1] 1"
             and cops = example_closed_ops]
        Init_missing_dependency
          [where scalars = "example_scalars (Fin 4)"
             and s = "OpenCoilSolver_new ''J'' ''Phi'' ''I'' [1] (1, 2)"
             and ops = "example_ops (Fin 3)" and gfs = "example_gridfunctions []"
             and fespaces = example_fespaces
             and c = "ClosedCoilSolver_new ''HCurl'' ''J'' ''I'' [1] 1"
             and cops = example_closed_ops]
        Init_missing_dependency
          [where scalars = "example_scalars (Fin 4)"
             and s = "OpenCoilSolver_new ''J'' ''Phi'' ''I'' [1] (1, 2)"
             and ops = "example_ops (Fin 3)" and gfs = "example_gridfunctions [''J'']"
             and fespaces = example_fespaces
             and c = "ClosedCoilSolver_new ''HCurl'' ''J'' ''I'' [1] 1"
             and cops = example_closed_ops]
  by (simp add: OpenCoilSolver_new_def ClosedCoilSolver_new_def example_scalars_def
        example_gridfunctions_def example_fespaces_def)

section \<open>The linear form after Apply\<close>

text \<open>What \<open>OpenCoilSolver::Apply\<close> returns in the linear form is the old form plus the
  parent current.\<close>

lemma OpenCoilSolver_Apply_adds:
  assumes "OpenCoilSolver_Apply ops s gfs lf = Inr (s', gfs', lf')"
  shows "\<exists>Jp Jpar. J_parent s = Some Jp \<and> gfs' Jp = Some Jpar \<and>
           Vector_Add lf (Fin 1) Jpar = Inr lf'"
  using assms
  by (auto simp: OpenCoilSolver_Apply_def Let_def split: option.splits sum.splits prod.splits)

lemma example_closed_coil_Init:
  "snd (ClosedCoilSolver_Init example_closed_ops (example_gridfunctions [''J'']) example_fespaces
       (example_scalars (Fin 4)) (ClosedCoilSolver_new ''HCurl'' ''J'' ''I'' [1] 1)) =
     Inr example_closed_coil"
  by (simp add: ClosedCoilSolver_Init_def ClosedCoilSolver_new_def solveOpenCoils_def
        solveOpenCoils_iteration_def resizeChildVectors_def makeWedge_def
        OpenCoilSolver_Init_def OpenCoilSolver_new_def setRefFace_def example_gridfunctions_def
        example_scalars_def example_ops_def example_coil_def example_closed_ops_def
        example_fespaces_def example_closed_coil_def Get_ptr_def Let_def SPSCurrent_def
        makeGridFunctions_def setBCs_def not_found_msg_def vec_div_6_3 vec_div_3_3
        eval_nat_numeral)

text \<open>
  Claim C4 at a concrete closed coil, as \<open>Init\<close> builds it: the linear form returned
  by \<open>ClosedCoilSolver::Apply\<close> is the parent current alone, whether the form held
  5 or 0 before the call. \<open>OpenCoilSolver::Apply\<close> on the same data adds to the 5.
\<close>

theorem ClosedCoilSolver_Apply_discards_linear_form:
  "snd (ClosedCoilSolver_Init example_closed_ops (example_gridfunctions [''J'']) example_fespaces
       (example_scalars (Fin 4)) (ClosedCoilSolver_new ''HCurl'' ''J'' ''I'' [1] 1)) =
     Inr example_closed_coil \<and>
   ClosedCoilSolver_Apply example_closed_ops example_closed_coil (example_gridfunctions [''J''])
       [Fin 5] =
     Inr (example_closed_coil, (example_gridfunctions [''J''])(''J'' := Some [Fin 8]), [Fin 8]) \<and>
   ClosedCoilSolver_Apply example_closed_ops example_closed_coil (example_gridfunctions [''J''])
       [Fin 0] =
     Inr (example_closed_coil, (example_gridfunctions [''J''])(''J'' := Some [Fin 8]), [Fin 8]) \<and>
   map_sum id (snd \<circ> snd)
     (OpenCoilSolver_Apply (example_ops (Fin 3)) ((example_coil (Fin 4))\<lparr>V_parent := None\<rparr>)
        (example_gridfunctions [''J'']) [Fin 5]) = Inr [Fin 13]"
  by (simp add: example_closed_coil_Init)
     (simp add: ClosedCoilSolver_Apply_def OpenCoilSolver_Apply_def example_closed_coil_def
        example_closed_ops_def example_ops_def example_coil_def example_gridfunctions_def
        Eval_def ConstantCoefficient_def vec_mul_def vec_div_8_4 vec_assign_def Vector_Add_def
        Let_def)

section \<open>Block offsets are prefix sums\<close>

lemma wrap_int32_idem: "wrap_int32 (wrap_int32 a + b) = wrap_int32 (a + b)"
proof -
  have "(wrap_int32 a + b + 2 ^ 31) mod 2 ^ 32 = ((a + 2 ^ 31) mod 2 ^ 32 + b) mod 2 ^ 32"
    by (simp add: wrap_int32_def algebra_simps)
  also have "\<dots> = (a + 2 ^ 31 + b) mod 2 ^ 32" by (rule mod_add_left_eq)
  finally show ?thesis by (simp add: wrap_int32_def algebra_simps)
qed

lemma wrap_int32_id: "is_int32 x \<Longrightarrow> wrap_int32 x = x"
  by (simp add: wrap_int32_def is_int32_def)

lemma PartialSum_loop_prefix:
  "PartialSum_loop (wrap_int32 acc) xs =
     map (\<lambda>k. wrap_int32 (acc + sum_list (take (Suc k) xs))) [0..<length xs]"
proof (induction xs arbitrary: acc)
  case Nil
  show ?case by simp
next
  case (Cons x xs)
  show ?case
    by (simp add: wrap_int32_idem Cons.IH map_upt_Suc add.assoc del: upt_Suc)
qed

lemma PartialSum_prefix_sums: "PartialSum (0 # sizes) = map wrap_int32 (prefix_sums sizes)"
proof -
  have z: "wrap_int32 0 = 0" by (simp add: wrap_int32_def)
  from PartialSum_loop_prefix [of 0 "0 # sizes"] show ?thesis
    by (simp add: PartialSum_def prefix_sums_def z map_upt_Suc del: upt_Suc)
qed

lemma PartialSum_prefix_sums_in_range:
  assumes "\<forall>x\<in>set (prefix_sums sizes). is_int32 x"
  shows "PartialSum (0 # sizes) = prefix_sums sizes"
  using assms by (simp add: PartialSum_prefix_sums wrap_int32_id map_idI)

text \<open>Beyond the range of an \<open>int\<close> the table wraps around.\<close>

lemma PartialSum_wraps_around:
  "AVSolver_true_offsets \<lparr>GetVSize = 2147483647, GetTrueVSize = 2147483647\<rparr>
     \<lparr>GetVSize = 1, GetTrueVSize = 1\<rparr> = [0, 2147483647, - 2147483648]"
  by (simp add: AVSolver_true_offsets_def PartialSum_def wrap_int32_def)

text \<open>
  Claim C5, as amended. The offset table of \<open>AVSolver\<close> and of \<open>HCurlSolver\<close>
  is the table of prefix sums, starting with 0, of the local vector sizes
  (\<open>GetVSize\<close>) of the operator's spaces in block order (the H1 space of \<open>p\<close>, then
  the H(curl) space of \<open>u\<close>), each sum taken in the 32 bits of an \<open>int\<close>; where
  every prefix sum is in the range of an \<open>int\<close>, the table holds the prefix sums
  themselves. \<open>PartialSum\<close> of a table that starts with 0 does this for every list
  of sizes.
\<close>

theorem block_offsets_prefix_sums_of_local_sizes:
  "AVSolver_true_offsets H1 HCurl =
     map wrap_int32 (prefix_sums [GetVSize H1, GetVSize HCurl]) \<and>
   HCurlSolver_true_offsets u = map wrap_int32 (prefix_sums [GetVSize u]) \<and>
   PartialSum (0 # sizes) = map wrap_int32 (prefix_sums sizes) \<and>
   ((\<forall>x\<in>set (prefix_sums sizes). is_int32 x) \<longrightarrow>
      PartialSum (0 # sizes) = prefix_sums sizes) \<and>
   (is_int32 (GetVSize H1) \<and> is_int32 (GetVSize H1 + GetVSize HCurl) \<longrightarrow>
      AVSolver_true_offsets H1 HCurl = prefix_sums [GetVSize H1, GetVSize HCurl] \<and>
      true_offsets (AVSolver_new H1 HCurl indeterminate) =
        [0, GetVSize H1, GetVSize H1 + GetVSize HCurl]) \<and>
   (is_int32 (GetVSize u) \<longrightarrow> HCurlSolver_true_offsets u = [0, GetVSize u])"
proof (intro conjI impI)
  show "AVSolver_true_offsets H1 HCurl =
     map wrap_int32 (prefix_sums [GetVSize H1, GetVSize HCurl])"
    by (simp add: AVSolver_true_offsets_def PartialSum_prefix_sums)
  show "HCurlSolver_true_offsets u = map wrap_int32 (prefix_sums [GetVSize u])"
    by (simp add: HCurlSolver_true_offsets_def PartialSum_prefix_sums)
  show "PartialSum (0 # sizes) = map wrap_int32 (prefix_sums sizes)"
    by (rule PartialSum_prefix_sums)
  show "\<forall>x\<in>set (prefix_sums sizes). is_int32 x \<Longrightarrow> PartialSum (0 # sizes) = prefix_sums sizes"
    by (rule PartialSum_prefix_sums_in_range)
  have z: "is_int32 0" by (simp add: is_int32_def)
  {
    assume h: "is_int32 (GetVSize H1) \<and> is_int32 (GetVSize H1 + GetVSize HCurl)"
    then have "\<forall>x\<in>set (prefix_sums [GetVSize H1, GetVSize HCurl]). is_int32 x"
      using z by (simp add: prefix_sums_def)
    from PartialSum_prefix_sums_in_range [OF this]
    show eq: "AVSolver_true_offsets H1 HCurl = prefix_sums [GetVSize H1, GetVSize HCurl]"
      by (simp add: AVSolver_true_offsets_def)
    then show "true_offsets (AVSolver_new H1 HCurl indeterminate) =
        [0, GetVSize H1, GetVSize H1 + GetVSize HCurl]"
      by (simp add: AVSolver_new_def prefix_sums_def)
  }
  {
    assume "is_int32 (GetVSize u)"
    then have "\<forall>x\<in>set (prefix_sums [GetVSize u]). is_int32 x"
      using z by (simp add: prefix_sums_def)
    from PartialSum_prefix_sums_in_range [OF this]
    show "HCurlSolver_true_offsets u = [0, GetVSize u]"
      by (simp add: HCurlSolver_true_offsets_def prefix_sums_def)
  }
qed

theorem block_offsets_prefix_sums_of_local_sizes_witness:
  "prefix_sums [5, 3] = [0, 5, 8] \<and> is_int32 0 \<and> is_int32 5 \<and> is_int32 8 \<and>
   PartialSum [0, 5, 3] = [0, 5, 8] \<and>
   is_int32 (GetVSize \<lparr>GetVSize = 5, GetTrueVSize = 4\<rparr>) \<and>
   is_int32 (GetVSize \<lparr>GetVSize = 5, GetTrueVSize = 4\<rparr> +
             GetVSize \<lparr>GetVSize = 3, GetTrueVSize = 2\<rparr>) \<and>
   true_offsets (AVSolver_new \<lparr>GetVSize = 5, GetTrueVSize = 4\<rparr>
                   \<lparr>GetVSize = 3, GetTrueVSize = 2\<rparr> NaN) = [0, 5, 8] \<and>
   HCurlSolver_true_offsets \<lparr>GetVSize = 3, GetTrueVSize = 2\<rparr> = [0, 3]"
  using block_offsets_prefix_sums_of_local_sizes
          [of "\<lparr>GetVSize = 5, GetTrueVSize = 4\<rparr>" "\<lparr>GetVSize = 3, GetTrueVSize = 2\<rparr>"
              "\<lparr>GetVSize = 3, GetTrueVSize = 2\<rparr>" "[5, 3]" NaN]
  by (simp add: prefix_sums_def is_int32_def wrap_int32_def eval_nat_numeral)

text \<open>
  Claim C5 as stated fails where a space has fewer true degrees of freedom than local
  ones, as on a partitioned mesh: the table holds the local sizes. It also fails for the
  order: \<open>AVSolver::Init\<close> registers \<open>u\<close> before \<open>p\<close>, and the table has the
  block of \<open>p\<close> first.
\<close>

theorem block_offsets_true_size_counterexample:
  "AVSolver_true_offsets \<lparr>GetVSize = 5, GetTrueVSize = 4\<rparr> \<lparr>GetVSize = 3, GetTrueVSize = 2\<rparr> =
     [0, 5, 8] \<and>
   prefix_sums [GetTrueVSize \<lparr>GetVSize = 5, GetTrueVSize = 4\<rparr>,
                GetTrueVSize \<lparr>GetVSize = 3, GetTrueVSize = 2\<rparr>] = [0, 4, 6] \<and>
   AVSolver_true_offsets \<lparr>GetVSize = 5, GetTrueVSize = 4\<rparr> \<lparr>GetVSize = 3, GetTrueVSize = 2\<rparr> \<noteq>
     prefix_sums [GetTrueVSize \<lparr>GetVSize = 5, GetTrueVSize = 4\<rparr>,
                  GetTrueVSize \<lparr>GetVSize = 3, GetTrueVSize = 2\<rparr>] \<and>
   map_sum id (\<lambda>s. (variables s, true_offsets s,
                     prefix_sums (map GetVSize (AVSolver_registered_spaces s)),
                     prefix_sums (map GetTrueVSize (AVSolver_registered_spaces s))))
     (AVSolver_Init (example_mfem True) example_properties (\<lambda>n. None) (replicate 8 (Fin 0))
        (AVSolver_new \<lparr>GetVSize = 5, GetTrueVSize = 4\<rparr> \<lparr>GetVSize = 3, GetTrueVSize = 2\<rparr> NaN)) =
     Inr ([''magnetic_vector_potential'', ''electric_potential''], [0, 5, 8], [0, 3, 8],
          [0, 2, 6])"
  by (simp add: AVSolver_true_offsets_def PartialSum_def prefix_sums_def wrap_int32_def
        AVSolver_Init_def AVSolver_new_def AVSolver_registered_spaces_def example_properties_def
        MakeRef_def Let_def buildGrad_def buildCurl_def buildM1_def eval_nat_numeral)

section \<open>The steps of AVSolver and HCurlOperator\<close>

lemma a1_needs_build_cong:
  "a1 s' = a1 s \<Longrightarrow> dt_A1 s' = dt_A1 s \<Longrightarrow> a1_needs_build dt s' = a1_needs_build dt s"
  by (simp add: a1_needs_build_def)

lemma AVSolver_solve_a0_frame:
  assumes "AVSolver_solve_a0 ext a0f b0v s = (ev, Inr s')"
  shows "a0 s' = a0 s" and "a1 s' = a1 s" and "m1 s' = m1 s" and "curlCurl s' = curlCurl s"
    and "dt_A1 s' = dt_A1 s" and "dtCoef s' = dtCoef s" and "pcg_a1 s' = pcg_a1 s"
    and "ams_a1 s' = ams_a1 s" and "true_offsets s' = true_offsets s"
  using assms
  by (auto simp: AVSolver_solve_a0_def Let_def split: sum.splits prod.splits)

lemma AVSolver_solve_a0_events:
  assumes "AVSolver_solve_a0 ext a0f b0v s = (ev, r)"
  shows "New ''HyprePCG(A1)'' \<notin> set ev" and "Invoke ''buildA1'' \<notin> set ev"
  using assms
  by (auto simp: AVSolver_solve_a0_def Let_def split: sum.splits prod.splits if_splits)

lemma AVSolver_build_b1_frame:
  "a0 (AVSolver_build_b1 ext m1f ccf s) = a0 s"
  "a1 (AVSolver_build_b1 ext m1f ccf s) = a1 s"
  "m1 (AVSolver_build_b1 ext m1f ccf s) = m1 s"
  "curlCurl (AVSolver_build_b1 ext m1f ccf s) = curlCurl s"
  "dt_A1 (AVSolver_build_b1 ext m1f ccf s) = dt_A1 s"
  "dtCoef (AVSolver_build_b1 ext m1f ccf s) = dtCoef s"
  "pcg_a1 (AVSolver_build_b1 ext m1f ccf s) = pcg_a1 s"
  "ams_a1 (AVSolver_build_b1 ext m1f ccf s) = ams_a1 s"
  "true_offsets (AVSolver_build_b1 ext m1f ccf s) = true_offsets s"
  by (simp_all add: AVSolver_build_b1_def Let_def)

lemma AVSolver_solve_a1_events:
  assumes "AVSolver_solve_a1 ext dt beta alpha s = (ev, r)"
  shows "New ''HyprePCG(A1)'' \<in> set ev \<Longrightarrow> pcg_a1 s = None"
    and "Invoke ''buildA1'' \<in> set ev \<Longrightarrow> a1_needs_build dt s"
  using assms
  by (auto simp: AVSolver_solve_a1_def Let_def split: sum.splits prod.splits if_splits option.splits)

lemma AVSolver_solve_a1_Inr:
  assumes "AVSolver_solve_a1 ext dt beta alpha s = (ev, Inr s')"
  shows "a0 s' = a0 s" and "m1 s' = m1 s" and "curlCurl s' = curlCurl s"
    and "true_offsets s' = true_offsets s"
    and "pcg_a1 s' \<noteq> None" and "pcg_a1 s \<noteq> None \<Longrightarrow> pcg_a1 s' = pcg_a1 s"
    and "New ''HyprePCG(A1)'' \<in> set ev \<longleftrightarrow> pcg_a1 s = None"
    and "Invoke ''buildA1'' \<in> set ev \<longleftrightarrow> a1_needs_build dt s"
    and "a1_needs_build dt s \<Longrightarrow>
           a1 s' = Some [VectorFEMassIntegrator beta,
                         CurlCurlIntegrator (dtAlphaCoef ext (dtCoef s) alpha)] \<and>
           dt_A1 s' = dtCoef s"
    and "\<not> a1_needs_build dt s \<Longrightarrow> a1 s' = a1 s \<and> dt_A1 s' = dt_A1 s"
  using assms
  by (auto simp: AVSolver_solve_a1_def Let_def buildA1_def
        split: sum.splits prod.splits if_splits option.splits)

lemma AVSolver_ImplicitSolve_stages:
  assumes run: "AVSolver_ImplicitSolve ext dt X dX_dt s = (evs, r)"
    and reached: "evs \<noteq> [] \<or> (\<exists>s'. r = Inr s')"
  obtains p u dp du a0f m1f ccf beta alpha b0v ev0 s2 ev1 where
    "AVSolver_members s = Inr (a0f, m1f, ccf, beta, alpha, b0v)"
    and "AVSolver_solve_a0 ext a0f b0v
           (s\<lparr>dtCoef := dt, p_gf := p, u_gf := u, dp_gf := dp, du_gf := du\<rparr>) = (ev0, s2)"
    and "case s2 of
           Inl e \<Rightarrow> evs = ev0 \<and> r = Inl e
         | Inr t \<Rightarrow> AVSolver_solve_a1 ext dt beta alpha (AVSolver_build_b1 ext m1f ccf t) = (ev1, r)
                    \<and> evs = ev0 @ ev1"
proof (cases "AVSolver_views X (vec_assign dX_dt (Fin 0)) s")
  case (Inl e)
  with run reached show ?thesis by (auto simp: AVSolver_ImplicitSolve_def)
next
  case (Inr v)
  obtain p u dp du where v: "v = (p, u, dp, du)" by (cases v) auto
  show ?thesis
  proof (cases "AVSolver_members s")
    case (Inl e)
    with run reached Inr show ?thesis by (auto simp: AVSolver_ImplicitSolve_def v)
  next
    case m: (Inr mm)
    obtain a0f m1f ccf beta alpha b0v where mm: "mm = (a0f, m1f, ccf, beta, alpha, b0v)"
      by (cases mm) auto
    obtain ev0 s2 where a0: "AVSolver_solve_a0 ext a0f b0v
           (s\<lparr>dtCoef := dt, p_gf := p, u_gf := u, dp_gf := dp, du_gf := du\<rparr>) = (ev0, s2)"
      by (cases "AVSolver_solve_a0 ext a0f b0v
           (s\<lparr>dtCoef := dt, p_gf := p, u_gf := u, dp_gf := dp, du_gf := du\<rparr>)") auto
    show ?thesis
    proof (cases s2)
      case (Inl e)
      with run Inr m a0 have "evs = ev0 \<and> r = Inl e"
        by (simp add: AVSolver_ImplicitSolve_def v mm)
      with Inl have c: "case s2 of
           Inl e \<Rightarrow> evs = ev0 \<and> r = Inl e
         | Inr t \<Rightarrow> AVSolver_solve_a1 ext dt beta alpha (AVSolver_build_b1 ext m1f ccf t) = ([], r)
                    \<and> evs = ev0 @ []"
        by simp
      from m [unfolded mm] a0 c show ?thesis by (rule that)
    next
      case t: (Inr t)
      obtain ev1 r1 where a1: "AVSolver_solve_a1 ext dt beta alpha
                                 (AVSolver_build_b1 ext m1f ccf t) = (ev1, r1)"
        by (cases "AVSolver_solve_a1 ext dt beta alpha (AVSolver_build_b1 ext m1f ccf t)") auto
      with run Inr m a0 t have "evs = ev0 @ ev1 \<and> r = r1"
        by (simp add: AVSolver_ImplicitSolve_def v mm)
      with t a1 have c: "case s2 of
           Inl e \<Rightarrow> evs = ev0 \<and> r = Inl e
         | Inr t \<Rightarrow> AVSolver_solve_a1 ext dt beta alpha (AVSolver_build_b1 ext m1f ccf t) = (ev1, r)
                    \<and> evs = ev0 @ ev1"
        by simp
      from m [unfolded mm] a0 c show ?thesis by (rule that)
    qed
  qed
qed

lemma AVSolver_members_coefs:
  "AVSolver_members s = Inr (a0f, m1f, ccf, beta, alpha, b0v) \<Longrightarrow>
     betaCoef s = Some beta \<and> alphaCoef s = Some alpha"
  by (auto simp: AVSolver_members_def split: option.splits)

lemma AVSolver_ImplicitSolve_events:
  assumes "AVSolver_ImplicitSolve ext dt X dX_dt s = (evs, r)"
  shows "New ''HyprePCG(A1)'' \<in> set evs \<Longrightarrow> pcg_a1 s = None"
    and "Invoke ''buildA1'' \<in> set evs \<Longrightarrow> a1_needs_build dt s"
proof -
  {
    fix x assume x: "x \<in> set evs" "x = New ''HyprePCG(A1)'' \<or> x = Invoke ''buildA1''"
    then have reached: "evs \<noteq> [] \<or> (\<exists>s'. r = Inr s')" by auto
    obtain p u dp du a0f m1f ccf beta alpha b0v ev0 s2 ev1 where
      mem: "AVSolver_members s = Inr (a0f, m1f, ccf, beta, alpha, b0v)" and
      a0: "AVSolver_solve_a0 ext a0f b0v
             (s\<lparr>dtCoef := dt, p_gf := p, u_gf := u, dp_gf := dp, du_gf := du\<rparr>) = (ev0, s2)"
      and rest: "case s2 of
              Inl e \<Rightarrow> evs = ev0 \<and> r = Inl e
            | Inr t \<Rightarrow> AVSolver_solve_a1 ext dt beta alpha (AVSolver_build_b1 ext m1f ccf t) = (ev1, r)
                       \<and> evs = ev0 @ ev1"
      using assms reached by (rule AVSolver_ImplicitSolve_stages)
    note n0 = AVSolver_solve_a0_events [OF a0]
    have "(x = New ''HyprePCG(A1)'' \<longrightarrow> pcg_a1 s = None) \<and>
          (x = Invoke ''buildA1'' \<longrightarrow> a1_needs_build dt s)"
    proof (cases s2)
      case (Inl e)
      with rest x n0 show ?thesis by auto
    next
      case (Inr t)
      with rest have a1: "AVSolver_solve_a1 ext dt beta alpha (AVSolver_build_b1 ext m1f ccf t) = (ev1, r)"
        and evs: "evs = ev0 @ ev1" by auto
      from a0 Inr have fr: "pcg_a1 t = pcg_a1 s" "a1 t = a1 s" "dt_A1 t = dt_A1 s"
        using AVSolver_solve_a0_frame [of ext a0f b0v _ ev0 t] by auto
      from x evs n0 have "x \<in> set ev1" by auto
      with AVSolver_solve_a1_events [OF a1] fr show ?thesis
        by (auto simp: AVSolver_build_b1_frame a1_needs_build_def)
    qed
  }
  then show "New ''HyprePCG(A1)'' \<in> set evs \<Longrightarrow> pcg_a1 s = None"
    and "Invoke ''buildA1'' \<in> set evs \<Longrightarrow> a1_needs_build dt s"
    by blast+
qed

lemma AVSolver_ImplicitSolve_Inr:
  assumes "AVSolver_ImplicitSolve ext dt X dX_dt s = (evs, Inr s')"
  shows "a0 s' = a0 s" and "m1 s' = m1 s" and "curlCurl s' = curlCurl s"
    and "true_offsets s' = true_offsets s"
    and "pcg_a1 s' \<noteq> None" and "pcg_a1 s \<noteq> None \<Longrightarrow> pcg_a1 s' = pcg_a1 s"
    and "New ''HyprePCG(A1)'' \<in> set evs \<longleftrightarrow> pcg_a1 s = None"
    and "Invoke ''buildA1'' \<in> set evs \<longleftrightarrow> a1_needs_build dt s"
    and "a1_needs_build dt s \<Longrightarrow>
           \<exists>beta alpha. betaCoef s = Some beta \<and> alphaCoef s = Some alpha \<and>
             a1 s' = Some [VectorFEMassIntegrator beta,
                           CurlCurlIntegrator (dtAlphaCoef ext dt alpha)] \<and>
             dt_A1 s' = dt"
    and "\<not> a1_needs_build dt s \<Longrightarrow> a1 s' = a1 s \<and> dt_A1 s' = dt_A1 s"
proof -
  have reached: "evs \<noteq> [] \<or> (\<exists>t. Inr s' = (Inr t :: error + AVSolver))" by simp
  obtain p u dp du a0f m1f ccf beta alpha b0v ev0 s2 ev1 where
    mem: "AVSolver_members s = Inr (a0f, m1f, ccf, beta, alpha, b0v)"
    and a0: "AVSolver_solve_a0 ext a0f b0v
           (s\<lparr>dtCoef := dt, p_gf := p, u_gf := u, dp_gf := dp, du_gf := du\<rparr>) = (ev0, s2)"
    and rest: "case s2 of
            Inl e \<Rightarrow> evs = ev0 \<and> Inr s' = Inl e
          | Inr t \<Rightarrow> AVSolver_solve_a1 ext dt beta alpha (AVSolver_build_b1 ext m1f ccf t) = (ev1, Inr s')
                     \<and> evs = ev0 @ ev1"
    using assms reached by (rule AVSolver_ImplicitSolve_stages)
  from rest obtain t where s2: "s2 = Inr t"
    and a1: "AVSolver_solve_a1 ext dt beta alpha (AVSolver_build_b1 ext m1f ccf t) = (ev1, Inr s')"
    and evs: "evs = ev0 @ ev1"
    by (cases s2) auto
  note f0 = AVSolver_solve_a0_frame [OF a0 [unfolded s2]]
  note n0 = AVSolver_solve_a0_events [OF a0]
  note f1 = AVSolver_solve_a1_Inr [OF a1]
  note fb = AVSolver_build_b1_frame
  have nb: "a1_needs_build dt (AVSolver_build_b1 ext m1f ccf t) = a1_needs_build dt s"
    using f0 by (simp add: a1_needs_build_def fb)
  have dc: "dtCoef (AVSolver_build_b1 ext m1f ccf t) = dt"
    using f0 by (simp add: fb)
  show "a0 s' = a0 s" using f0 f1 by (simp add: fb)
  show "m1 s' = m1 s" using f0 f1 by (simp add: fb)
  show "curlCurl s' = curlCurl s" using f0 f1 by (simp add: fb)
  show "true_offsets s' = true_offsets s" using f0 f1 by (simp add: fb)
  show "pcg_a1 s' \<noteq> None" using f1 by simp
  show "pcg_a1 s \<noteq> None \<Longrightarrow> pcg_a1 s' = pcg_a1 s" using f0 f1 by (simp add: fb)
  show "New ''HyprePCG(A1)'' \<in> set evs \<longleftrightarrow> pcg_a1 s = None"
    using f0 f1(7) n0 evs by (simp add: fb)
  show "Invoke ''buildA1'' \<in> set evs \<longleftrightarrow> a1_needs_build dt s"
    using f1(8) n0 evs nb by simp
  show "a1_needs_build dt s \<Longrightarrow>
           \<exists>beta alpha. betaCoef s = Some beta \<and> alphaCoef s = Some alpha \<and>
             a1 s' = Some [VectorFEMassIntegrator beta,
                           CurlCurlIntegrator (dtAlphaCoef ext dt alpha)] \<and>
             dt_A1 s' = dt"
    using f1(9) nb dc AVSolver_members_coefs [OF mem] by simp
  show "\<not> a1_needs_build dt s \<Longrightarrow> a1 s' = a1 s \<and> dt_A1 s' = dt_A1 s"
    using f1(10) nb f0 by (simp add: fb)
qed

section \<open>Solver construction\<close>

lemmas example_operator_defs =
  example_AVSolver_stepped_def example_AVSolver_def AVSolver_Init_def AVSolver_new_def
  example_properties_def MakeRef_def AVSolver_true_offsets_def PartialSum_def Let_def
  example_mfem_def buildGrad_def buildCurl_def buildM1_def vec_assign_def
  ConstantCoefficient_def AVSolver_ImplicitSolve_def AVSolver_views_def AVSolver_members_def
  AVSolver_solve_a0_def AVSolver_build_b1_def AVSolver_solve_a1_def x_after_Mult_def
  a1_needs_build_def buildA1_def new_preconditioner_def new_HyprePCG_def vec_mul_def
  dtAlphaCoef_def wrap_int32_def
  example_HCurl_ops_def example_HCurlOperator_def example_HCurlOperator_stepped_def
  HCurlOperator_ImplicitSolve_def new_DefaultHCurlPCGSolver_def

lemma AVSolver_steps_no_new_solver:
  "AVSolver_steps ext invs s = (evss, r) \<Longrightarrow> pcg_a1 s \<noteq> None \<Longrightarrow>
     \<forall>ev\<in>set evss. New ''HyprePCG(A1)'' \<notin> set ev"
proof (induction invs arbitrary: s evss r)
  case Nil
  then show ?case by simp
next
  case (Cons inv invs)
  obtain dt X dX_dt where inv: "inv = (dt, X, dX_dt)" by (cases inv) auto
  obtain ev r1 where step: "AVSolver_ImplicitSolve ext dt X dX_dt s = (ev, r1)"
    by (cases "AVSolver_ImplicitSolve ext dt X dX_dt s") auto
  from AVSolver_ImplicitSolve_events(1) [OF step] Cons.prems(2)
  have ev: "New ''HyprePCG(A1)'' \<notin> set ev" by auto
  show ?case
  proof (cases r1)
    case (Inl e)
    with Cons.prems(1) step ev show ?thesis by (auto simp: inv)
  next
    case (Inr s2)
    obtain evs r2 where rest: "AVSolver_steps ext invs s2 = (evs, r2)"
      by (cases "AVSolver_steps ext invs s2") auto
    from AVSolver_ImplicitSolve_Inr(5) [OF step [unfolded Inr]]
    have "pcg_a1 s2 \<noteq> None" .
    from Cons.IH [OF rest this] have "\<forall>ev\<in>set evs. New ''HyprePCG(A1)'' \<notin> set ev" .
    with Cons.prems(1) step Inr rest ev show ?thesis by (auto simp: inv)
  qed
qed

lemma HCurlOperator_ImplicitSolve_new_solver:
  assumes "HCurlOperator_ImplicitSolve ops dt X dX_dt t = (evs, Inr t')"
  shows "evs = [New ''DefaultHCurlPCGSolver'']"
    and "a1_solver t' = Some (new_DefaultHCurlPCGSolver (op_solver_options t) (blockA t'))"
  using assms
  by (auto simp: HCurlOperator_ImplicitSolve_def Let_def
        split: sum.splits prod.splits if_splits)

lemma HCurlOperator_steps_new_solver:
  "HCurlOperator_steps ops invs t = (evss, Inr t2) \<Longrightarrow>
     \<forall>ev\<in>set evss. ev = [New ''DefaultHCurlPCGSolver'']"
proof (induction invs arbitrary: t evss)
  case Nil
  then show ?case by simp
next
  case (Cons inv invs)
  obtain dt X dX_dt where inv: "inv = (dt, X, dX_dt)" by (cases inv) auto
  obtain ev r1 where step: "HCurlOperator_ImplicitSolve ops dt X dX_dt t = (ev, r1)"
    by (cases "HCurlOperator_ImplicitSolve ops dt X dX_dt t") auto
  show ?case
  proof (cases r1)
    case (Inl e)
    with Cons.prems step show ?thesis by (simp add: inv)
  next
    case (Inr s2)
    obtain evs r2 where rest: "HCurlOperator_steps ops invs s2 = (evs, r2)"
      by (cases "HCurlOperator_steps ops invs s2") auto
    with Cons.prems step Inr have r2: "r2 = Inr t2" and evss: "evss = ev # evs"
      by (auto simp: inv)
    from HCurlOperator_ImplicitSolve_new_solver(1) [OF step [unfolded Inr]]
    have "ev = [New ''DefaultHCurlPCGSolver'']" .
    with Cons.IH [OF rest [unfolded r2]] evss show ?thesis by simp
  qed
qed

text \<open>
  Claim C1, as amended. In every invocation \<open>AVSolver::ImplicitSolve\<close> constructs its
  PCG solver for \<open>A1\<close> only when it has none, and keeps the solver it has whatever
  the time step; it calls \<open>buildA1\<close> only when \<open>a1\<close> is null or the time step
  moved beyond the relative tolerance, and always then. In a sequence of invocations
  that starts with a solver no invocation constructs one.
  \<open>HCurlOperator::ImplicitSolve\<close> constructs a new solver in every invocation that
  returns, in every sequence of invocations.
\<close>

theorem solver_construction_policy:
  "(AVSolver_ImplicitSolve ext dt X dX_dt s = (evs, r) \<longrightarrow>
      (New ''HyprePCG(A1)'' \<in> set evs \<longrightarrow> pcg_a1 s = None) \<and>
      (Invoke ''buildA1'' \<in> set evs \<longrightarrow> a1_needs_build dt s) \<and>
      (\<forall>s'. r = Inr s' \<longrightarrow>
         (pcg_a1 s = None \<longrightarrow> New ''HyprePCG(A1)'' \<in> set evs) \<and>
         pcg_a1 s' \<noteq> None \<and>
         (pcg_a1 s \<noteq> None \<longrightarrow> pcg_a1 s' = pcg_a1 s) \<and>
         (a1_needs_build dt s \<longrightarrow> Invoke ''buildA1'' \<in> set evs))) \<and>
   (AVSolver_steps ext invs sa = (evss, r2) \<and> pcg_a1 sa \<noteq> None \<longrightarrow>
      (\<forall>ev\<in>set evss. New ''HyprePCG(A1)'' \<notin> set ev)) \<and>
   (HCurlOperator_ImplicitSolve ops dt2 Y dY_dt t = (evs2, Inr t') \<longrightarrow>
      evs2 = [New ''DefaultHCurlPCGSolver''] \<and>
      a1_solver t' = Some (new_DefaultHCurlPCGSolver (op_solver_options t) (blockA t'))) \<and>
   (HCurlOperator_steps ops invs2 ta = (evss2, Inr t2) \<longrightarrow>
      (\<forall>ev\<in>set evss2. ev = [New ''DefaultHCurlPCGSolver'']))"
proof (intro conjI impI allI)
  assume run: "AVSolver_ImplicitSolve ext dt X dX_dt s = (evs, r)"
  show "New ''HyprePCG(A1)'' \<in> set evs \<Longrightarrow> pcg_a1 s = None"
    by (rule AVSolver_ImplicitSolve_events(1) [OF run])
  show "Invoke ''buildA1'' \<in> set evs \<Longrightarrow> a1_needs_build dt s"
    by (rule AVSolver_ImplicitSolve_events(2) [OF run])
  fix s' assume "r = Inr s'"
  with run have ok: "AVSolver_ImplicitSolve ext dt X dX_dt s = (evs, Inr s')" by simp
  show "pcg_a1 s = None \<Longrightarrow> New ''HyprePCG(A1)'' \<in> set evs"
    using AVSolver_ImplicitSolve_Inr(7) [OF ok] by simp
  show "pcg_a1 s' \<noteq> None"
    by (rule AVSolver_ImplicitSolve_Inr(5) [OF ok])
  show "pcg_a1 s \<noteq> None \<Longrightarrow> pcg_a1 s' = pcg_a1 s"
    by (rule AVSolver_ImplicitSolve_Inr(6) [OF ok])
  show "a1_needs_build dt s \<Longrightarrow> Invoke ''buildA1'' \<in> set evs"
    using AVSolver_ImplicitSolve_Inr(8) [OF ok] by simp
next
  assume "AVSolver_steps ext invs sa = (evss, r2) \<and> pcg_a1 sa \<noteq> None"
  then show "\<forall>ev\<in>set evss. New ''HyprePCG(A1)'' \<notin> set ev"
    using AVSolver_steps_no_new_solver [of ext invs sa evss r2] by simp
next
  assume run: "HCurlOperator_ImplicitSolve ops dt2 Y dY_dt t = (evs2, Inr t')"
  show "evs2 = [New ''DefaultHCurlPCGSolver'']"
    by (rule HCurlOperator_ImplicitSolve_new_solver(1) [OF run])
  show "a1_solver t' = Some (new_DefaultHCurlPCGSolver (op_solver_options t) (blockA t'))"
    by (rule HCurlOperator_ImplicitSolve_new_solver(2) [OF run])
next
  assume "HCurlOperator_steps ops invs2 ta = (evss2, Inr t2)"
  then show "\<forall>ev\<in>set evss2. ev = [New ''DefaultHCurlPCGSolver'']"
    by (rule HCurlOperator_steps_new_solver)
qed

text \<open>
  Claim C1 as stated fails for \<open>HCurlOperator\<close>: a second invocation with the same
  time step, with a solver at hand and the same operator, constructs a solver again.
\<close>

theorem HCurlOperator_new_solver_every_step_counterexample:
  "HCurlOperator_ImplicitSolve (example_HCurl_ops True) (Fin 1) [Fin 0] [Fin 0]
       example_HCurlOperator =
     ([New ''DefaultHCurlPCGSolver''], Inr example_HCurlOperator_stepped) \<and>
   a1_solver example_HCurlOperator_stepped \<noteq> None \<and>
   HCurlOperator_ImplicitSolve (example_HCurl_ops True) (Fin 1) [Fin 0] [Fin 0]
       example_HCurlOperator_stepped =
     ([New ''DefaultHCurlPCGSolver''], Inr example_HCurlOperator_stepped) \<and>
   \<not> spec_may_construct (a1_solver example_HCurlOperator_stepped \<noteq> None)
        (blockA example_HCurlOperator_stepped \<noteq> blockA example_HCurlOperator_stepped)
        (Fin 1) (Fin 1)"
  by (simp add: example_operator_defs spec_may_construct_def dsub_def tolerance_test_1_1)

theorem solver_construction_policy_witness:
  "AVSolver_ImplicitSolve (example_mfem True) (Fin 1) [Fin 0, Fin 0] [Fin 0, Fin 0]
       example_AVSolver =
     ([New ''HypreBoomerAMG(A0)'', New ''HyprePCG(A0)'', Invoke ''buildA1'',
       New ''HypreAMS(A1)'', New ''HyprePCG(A1)''], Inr example_AVSolver_stepped) \<and>
   pcg_a1 example_AVSolver = None \<and> a1_needs_build (Fin 1) example_AVSolver \<and>
   pcg_a1 example_AVSolver_stepped \<noteq> None \<and>
   AVSolver_steps (example_mfem True) [(Fin 2, [Fin 0, Fin 0], [Fin 0, Fin 0])]
       example_AVSolver_stepped =
     ([[Invoke ''buildA1'']], Inr (example_AVSolver_stepped
         \<lparr>dtCoef := Fin 2,
          a1 := Some [VectorFEMassIntegrator (\<lambda>p. Fin 1), CurlCurlIntegrator (\<lambda>p. Fin 2)],
          dt_A1 := Fin 2\<rparr>)) \<and>
   HCurlOperator_ImplicitSolve (example_HCurl_ops True) (Fin 1) [Fin 0] [Fin 0]
       example_HCurlOperator_stepped =
     ([New ''DefaultHCurlPCGSolver''], Inr example_HCurlOperator_stepped) \<and>
   HCurlOperator_steps (example_HCurl_ops True)
       [(Fin 1, [Fin 0], [Fin 0]), (Fin 1, [Fin 0], [Fin 0])] example_HCurlOperator =
     ([[New ''DefaultHCurlPCGSolver''], [New ''DefaultHCurlPCGSolver'']],
      Inr example_HCurlOperator_stepped)"
  using solver_construction_policy
          [where ext = "example_mfem True" and dt = "Fin 1" and X = "[Fin 0, Fin 0]"
             and dX_dt = "[Fin 0, Fin 0]" and s = example_AVSolver
             and evs = "[New ''HypreBoomerAMG(A0)'', New ''HyprePCG(A0)'', Invoke ''buildA1'',
                         New ''HypreAMS(A1)'', New ''HyprePCG(A1)'']"
             and r = "Inr example_AVSolver_stepped"
             and invs = "[(Fin 2, [Fin 0, Fin 0], [Fin 0, Fin 0])]"
             and sa = example_AVSolver_stepped and evss = "[[Invoke ''buildA1'']]"
             and ?r2.0 = "Inr (example_AVSolver_stepped
                   \<lparr>dtCoef := Fin 2,
                    a1 := Some [VectorFEMassIntegrator (\<lambda>p. Fin 1),
                                CurlCurlIntegrator (\<lambda>p. Fin 2)],
                    dt_A1 := Fin 2\<rparr>)"
             and ops = "example_HCurl_ops True" and ?dt2.0 = "Fin 1" and Y = "[Fin 0]"
             and dY_dt = "[Fin 0]" and t = example_HCurlOperator_stepped
             and ?evs2.0 = "[New ''DefaultHCurlPCGSolver'']"
             and t' = example_HCurlOperator_stepped
             and ?invs2.0 = "[(Fin 1, [Fin 0], [Fin 0]), (Fin 1, [Fin 0], [Fin 0])]"
             and ta = example_HCurlOperator
             and ?evss2.0 = "[[New ''DefaultHCurlPCGSolver''], [New ''DefaultHCurlPCGSolver'']]"
             and ?t2.0 = example_HCurlOperator_stepped]
  by (simp add: example_operator_defs dsub_def tolerance_test_2_1)

section \<open>The forms across a change of time step\<close>

lemma AVSolver_needs_build_iff:
  "a1_needs_build dt s \<longleftrightarrow>
     a1 s = None \<or> dless (dmul literal_1e_12 dt) (fabs (dsub dt (dt_A1 s)))"
  by (simp add: a1_needs_build_def)

text \<open>
  Claim C6, as amended. A step of \<open>AVSolver\<close> leaves the forms \<open>m1\<close>,
  \<open>curlCurl\<close> and \<open>a0\<close> as they are. When \<open>a1\<close> is null or the test
  \<open>fabs(dt - dt_A1) > 1.0e-12 * dt\<close> holds in double precision, for the time step
  \<open>dt_A1\<close> that \<open>a1\<close> was built with, \<open>a1\<close> is built again with the mass
  term and the curl-curl term scaled by the new time step; otherwise \<open>a1\<close> is kept.
\<close>

theorem time_step_beyond_tolerance_rebuilds_a1_only:
  "AVSolver_ImplicitSolve ext dt X dX_dt s = (evs, Inr s') \<longrightarrow>
     m1 s' = m1 s \<and> curlCurl s' = curlCurl s \<and> a0 s' = a0 s \<and>
     (a1 s = None \<or> dless (dmul literal_1e_12 dt) (fabs (dsub dt (dt_A1 s))) \<longrightarrow>
        Invoke ''buildA1'' \<in> set evs \<and> dt_A1 s' = dt \<and>
        (\<exists>beta alpha. betaCoef s = Some beta \<and> alphaCoef s = Some alpha \<and>
           a1 s' = Some [VectorFEMassIntegrator beta,
                         CurlCurlIntegrator (dtAlphaCoef ext dt alpha)])) \<and>
     (a1 s \<noteq> None \<and> \<not> dless (dmul literal_1e_12 dt) (fabs (dsub dt (dt_A1 s))) \<longrightarrow>
        Invoke ''buildA1'' \<notin> set evs \<and> dt_A1 s' = dt_A1 s \<and> a1 s' = a1 s)"
proof (intro impI conjI)
  assume run: "AVSolver_ImplicitSolve ext dt X dX_dt s = (evs, Inr s')"
  note f = AVSolver_ImplicitSolve_Inr [OF run]
  show "m1 s' = m1 s" by (rule f(2))
  show "curlCurl s' = curlCurl s" by (rule f(3))
  show "a0 s' = a0 s" by (rule f(1))
  {
    assume "a1 s = None \<or> dless (dmul literal_1e_12 dt) (fabs (dsub dt (dt_A1 s)))"
    then have nb: "a1_needs_build dt s" by (simp add: AVSolver_needs_build_iff)
    from f(8) nb show "Invoke ''buildA1'' \<in> set evs" by simp
    from f(9) [OF nb] show "dt_A1 s' = dt" by blast
    from f(9) [OF nb] show "\<exists>beta alpha. betaCoef s = Some beta \<and> alphaCoef s = Some alpha \<and>
           a1 s' = Some [VectorFEMassIntegrator beta,
                         CurlCurlIntegrator (dtAlphaCoef ext dt alpha)]" by blast
  }
  {
    assume "a1 s \<noteq> None \<and> \<not> dless (dmul literal_1e_12 dt) (fabs (dsub dt (dt_A1 s)))"
    then have nb: "\<not> a1_needs_build dt s" by (simp add: AVSolver_needs_build_iff)
    from f(8) nb show "Invoke ''buildA1'' \<notin> set evs" by simp
    from f(10) [OF nb] show "dt_A1 s' = dt_A1 s" by simp
    from f(10) [OF nb] show "a1 s' = a1 s" by simp
  }
qed

text \<open>
  Claim C6 as stated fails for a change of the time step within the tolerance: after a
  step with \<open>dt = 1\<close>, a step with \<open>dt = 1 + 2^(-43)\<close>, which is a double about
  \<open>1.1e-13\<close> above 1, keeps the form built for \<open>dt = 1\<close>.
\<close>

theorem small_time_step_change_counterexample:
  "dt_A1 example_AVSolver_stepped = Fin 1 \<and>
   a1 example_AVSolver_stepped =
     Some [VectorFEMassIntegrator (ConstantCoefficient (Fin 1)),
           CurlCurlIntegrator (ConstantCoefficient (Fin 1))] \<and>
   example_dt = Fin (1 + 1 / 2 ^ 43) \<and> round64 (1 + 1 / 2 ^ 43) = example_dt \<and>
   example_dt \<noteq> dt_A1 example_AVSolver_stepped \<and>
   AVSolver_ImplicitSolve (example_mfem True) example_dt [Fin 0, Fin 0]
       [Fin 0, Fin 0] example_AVSolver_stepped =
     ([], Inr (example_AVSolver_stepped\<lparr>dtCoef := example_dt\<rparr>))"
proof (intro conjI)
  show "dt_A1 example_AVSolver_stepped = Fin 1"
    by (simp add: example_operator_defs)
  show "a1 example_AVSolver_stepped =
     Some [VectorFEMassIntegrator (ConstantCoefficient (Fin 1)),
           CurlCurlIntegrator (ConstantCoefficient (Fin 1))]"
    by (simp add: example_operator_defs)
  show "example_dt = Fin (1 + 1 / 2 ^ 43)" by (simp add: example_dt_def)
  show "round64 (1 + 1 / 2 ^ 43) = example_dt"
    by (simp only: example_dt_is_double example_dt_def)
  show "example_dt \<noteq> dt_A1 example_AVSolver_stepped"
    by (simp add: example_operator_defs) (simp add: example_dt_def)
  show "AVSolver_ImplicitSolve (example_mfem True) example_dt [Fin 0, Fin 0]
       [Fin 0, Fin 0] example_AVSolver_stepped =
     ([], Inr (example_AVSolver_stepped\<lparr>dtCoef := example_dt\<rparr>))"
    by (simp add: example_operator_defs tolerance_test_example_dt)
qed

theorem time_step_beyond_tolerance_rebuilds_a1_only_witness:
  "AVSolver_ImplicitSolve (example_mfem True) (Fin 2) [Fin 0, Fin 0] [Fin 0, Fin 0]
       example_AVSolver_stepped =
     ([Invoke ''buildA1''], Inr (example_AVSolver_stepped
         \<lparr>dtCoef := Fin 2,
          a1 := Some [VectorFEMassIntegrator (\<lambda>p. Fin 1), CurlCurlIntegrator (\<lambda>p. Fin 2)],
          dt_A1 := Fin 2\<rparr>)) \<and>
   dless (dmul literal_1e_12 (Fin 2)) (fabs (dsub (Fin 2) (dt_A1 example_AVSolver_stepped))) \<and>
   m1 example_AVSolver_stepped = Some [VectorFEMassIntegrator (\<lambda>p. Fin 1)] \<and>
   curlCurl example_AVSolver_stepped = Some [CurlCurlIntegrator (\<lambda>p. Fin 1)] \<and>
   AVSolver_ImplicitSolve (example_mfem True) (Fin 1) [Fin 0, Fin 0] [Fin 0, Fin 0]
       example_AVSolver_stepped = ([], Inr example_AVSolver_stepped) \<and>
   a1 example_AVSolver_stepped \<noteq> None \<and>
   \<not> dless (dmul literal_1e_12 (Fin 1)) (fabs (dsub (Fin 1) (dt_A1 example_AVSolver_stepped)))"
  using time_step_beyond_tolerance_rebuilds_a1_only
          [of "example_mfem True" "Fin 2" "[Fin 0, Fin 0]" "[Fin 0, Fin 0]"
              example_AVSolver_stepped "[Invoke ''buildA1'']"
              "example_AVSolver_stepped
                 \<lparr>dtCoef := Fin 2,
                  a1 := Some [VectorFEMassIntegrator (\<lambda>p. Fin 1),
                              CurlCurlIntegrator (\<lambda>p. Fin 2)],
                  dt_A1 := Fin 2\<rparr>"]
        time_step_beyond_tolerance_rebuilds_a1_only
          [of "example_mfem True" "Fin 1" "[Fin 0, Fin 0]" "[Fin 0, Fin 0]"
              example_AVSolver_stepped "[]" example_AVSolver_stepped]
  by (simp add: example_operator_defs dsub_def tolerance_test_2_1 tolerance_test_1_1)

section \<open>The convergence status of the solver\<close>
























section \<open>Assembly is idempotent\<close>

text \<open>
  Applying the kernels of a variable appends their terms to the form they are given:
  only a form that was cleared first ends with each term once.
\<close>

lemma apply_blf_kernels_appends:
  "apply_blf_kernels dt ks v form = form @ blf_contributions dt ks v"
proof (induction ks arbitrary: form)
  case Nil
  show ?case by (simp add: apply_blf_kernels_def blf_contributions_def)
next
  case (Cons tk ks)
  obtain test k where tk: "tk = (test, k)" by (cases tk) auto
  have app: "Kernel_Apply_blf dt k form = form @ Kernel_Apply_blf dt k []"
    by (cases k) simp_all
  from Cons.IH [of "Kernel_Apply_blf dt k form"] Cons.IH [of form] app show ?case
    by (simp add: apply_blf_kernels_def blf_contributions_def tk)
qed

lemma kernels_accumulate_without_clearing:
  "apply_blf_kernels dt ks v (apply_blf_kernels dt ks v []) =
     blf_contributions dt ks v @ blf_contributions dt ks v"
  by (simp add: apply_blf_kernels_appends)

lemma MixedVectorGradientKernel_Apply_is_kernel:
  "Kernel_Apply_mblf dt w (MixedBilinearFormKernel w (\<lambda>dt. MixedVectorGradientIntegrator coef)) mblf =
     MixedVectorGradientKernel_Apply coef mblf"
  by (simp add: MixedVectorGradientKernel_Apply_def)



end
